theory Spec2Isabelle
  imports Main "HOL-Library.AList" "HOL-Library.Sublist"
begin

section \<open>Python values\<close>

text \<open>
  The values that travel through \<^verbatim>\<open>MCPClient\<close> are what \<^verbatim>\<open>json.loads\<close> produces and
  \<^verbatim>\<open>json.dumps\<close> accepts. Numbers are integers here; floating point is outside the model.
  A Python \<^verbatim>\<open>dict\<close> keeps insertion order, so it is an association list: assigning to a
  present key keeps its position, assigning to an absent key appends
  (\<open>AList.update\<close>), and \<^verbatim>\<open>del\<close> removes the entry (\<open>AList.delete\<close>).
\<close>

datatype json =
    JNull
  | JBool bool
  | JInt int
  | JStr string
  | JArr "json list"
  | JObj "(string \<times> json) list"

type_synonym pydict = "(string \<times> json) list"

text \<open>\<^verbatim>\<open>d.get(k)\<close>: the value, or \<^verbatim>\<open>None\<close> when the key is absent.\<close>

definition dict_get :: "pydict \<Rightarrow> string \<Rightarrow> json" where
  "dict_get d k = (case map_of d k of None \<Rightarrow> JNull | Some v \<Rightarrow> v)"

text \<open>Python truthiness, as \<^verbatim>\<open>not message.get("id")\<close> and \<^verbatim>\<open>if self.api_key\<close> test it.\<close>

fun truthy :: "json \<Rightarrow> bool" where
  "truthy JNull = False"
| "truthy (JBool b) = b"
| "truthy (JInt i) = (i \<noteq> 0)"
| "truthy (JStr s) = (s \<noteq> [])"
| "truthy (JArr xs) = (xs \<noteq> [])"
| "truthy (JObj kvs) = (kvs \<noteq> [])"

text \<open>
  Keys of \<^verbatim>\<open>self.message_callbacks\<close>: a list or a dict is unhashable (\<^verbatim>\<open>TypeError\<close>), and
  \<^verbatim>\<open>True\<close>/\<^verbatim>\<open>False\<close> are the same keys as \<^verbatim>\<open>1\<close>/\<^verbatim>\<open>0\<close>.
\<close>

fun hashable :: "json \<Rightarrow> bool" where
  "hashable (JArr xs) = False"
| "hashable (JObj kvs) = False"
| "hashable v = True"

fun dict_key :: "json \<Rightarrow> json" where
  "dict_key (JBool b) = JInt (if b then 1 else 0)"
| "dict_key v = v"

fun py_type_name :: "json \<Rightarrow> string" where
  "py_type_name JNull = ''NoneType''"
| "py_type_name (JBool b) = ''bool''"
| "py_type_name (JInt i) = ''int''"
| "py_type_name (JStr s) = ''str''"
| "py_type_name (JArr xs) = ''list''"
| "py_type_name (JObj kvs) = ''dict''"

text \<open>An exception: its class name and \<^verbatim>\<open>str(e)\<close>.\<close>

datatype exn = Exn (exn_class: string) (exn_str: string)

text \<open>A name between single quotes, as Python's messages print it.\<close>

definition quoted :: "string \<Rightarrow> string" where
  "quoted s = [CHR 0x27] @ s @ [CHR 0x27]"

subsection \<open>Strings\<close>

text \<open>\<^verbatim>\<open>s.replace(old, new)\<close> for a non-empty \<^verbatim>\<open>old\<close>: every occurrence, left to right.\<close>

function replace :: "string \<Rightarrow> string \<Rightarrow> string \<Rightarrow> string" where
  "replace old new [] = []"
| "replace old new (c # cs) =
     (if old \<noteq> [] \<and> prefix old (c # cs)
      then new @ replace old new (drop (length old) (c # cs))
      else c # replace old new cs)"
  by pat_completeness auto
termination
  by (relation "measure (\<lambda>(old, new, s). length s)") (auto simp: neq_Nil_conv)

text \<open>\<^verbatim>\<open>str(n)\<close> for an integer, as the f-string of the final HTTP error formats it.\<close>

definition digit_char :: "nat \<Rightarrow> char" where
  "digit_char d = ''0123456789'' ! d"

fun str_nat :: "nat \<Rightarrow> string" where
  "str_nat n = (if n < 10 then [digit_char n] else str_nat (n div 10) @ [digit_char (n mod 10)])"

declare str_nat.simps [simp del]

definition str_int :: "int \<Rightarrow> string" where
  "str_int i = (if i < 0 then CHR ''-'' # str_nat (nat (- i)) else str_nat (nat i))"

section \<open>The client\<close>

text \<open>The attributes \<^verbatim>\<open>__init__\<close> stores and nothing reassigns.\<close>

record config =
  server_url :: string
  api_key :: "string option"
  connection_type :: string
  timeout :: int
  max_retries :: int
  retry_delay :: int

text \<open>
  What the client does to the world, in order. Of the logging calls only
  \<^verbatim>\<open>logger.error\<close> is recorded; debug, info and warning lines change nothing.
\<close>

datatype effect =
    Log_error string
  | Sleep_poll
  | Sleep_retry int
  | Http_post string "(string \<times> string) list" pydict int
  | Ws_app_created nat string "(string \<times> string) list"
  | Thread_started nat
  | Ws_send nat string
  | Event_wait nat int

text \<open>
  The mutable part: \<^verbatim>\<open>self.ws\<close> (the handle of the current \<^verbatim>\<open>WebSocketApp\<close>),
  \<^verbatim>\<open>self.ws_connected\<close>, \<^verbatim>\<open>self.message_callbacks\<close>, and
  \<^verbatim>\<open>st.session_state.connection_status\<close>. Message dictionaries live in \<open>heap\<close>, so
  that a caller and \<^verbatim>\<open>send_message\<close> share one object. Each WebSocket call creates a
  closure \<^verbatim>\<open>callback\<close> over its own \<^verbatim>\<open>result\<close> and \<^verbatim>\<open>event\<close>; the closure is named by a
  number, and \<open>results\<close> holds, for every closure that has run, the data it stored
  (its event is set exactly then).
\<close>

record state =
  ws :: "nat option"
  ws_connected :: bool
  message_callbacks :: "(json \<times> nat) list"
  connection_status :: string
  heap :: "nat \<Rightarrow> pydict"
  next_obj :: nat
  results :: "(nat \<times> json) list"
  next_call :: nat
  next_ws :: nat
  trace :: "effect list"

definition log_error :: "string \<Rightarrow> state \<Rightarrow> state" where
  "log_error txt s = s\<lparr>trace := trace s @ [Log_error txt]\<rparr>"

definition get_headers :: "config \<Rightarrow> (string \<times> string) list" where
  "get_headers c =
     (''Content-Type'', ''application/json'') #
     (case api_key c of
        None \<Rightarrow> []
      | Some k \<Rightarrow> if k \<noteq> [] then [(''Authorization'', ''Bearer '' @ k)] else [])"

subsection \<open>The WebSocket connection and its callbacks\<close>

definition ws_url_of :: "config \<Rightarrow> string" where
  "ws_url_of c =
     (let ws_url = server_url c in
      if prefix ''http://'' ws_url then replace ''http://'' ''ws://'' ws_url
      else if prefix ''https://'' ws_url then replace ''https://'' ''wss://'' ws_url
      else ws_url)"

definition connect_websocket :: "config \<Rightarrow> state \<Rightarrow> state" where
  "connect_websocket c s =
     (if connection_type c \<noteq> ''WebSocket'' then s
      else
        let h = next_ws s in
        s\<lparr>ws := Some h, next_ws := Suc h,
          trace := trace s @ [Ws_app_created h (ws_url_of c) (get_headers c), Thread_started h]\<rparr>)"

text \<open>
  The body of the \<^verbatim>\<open>try\<close> in \<^verbatim>\<open>on_message\<close>: \<^verbatim>\<open>json.loads\<close> may raise, \<^verbatim>\<open>data.get\<close>
  raises \<^verbatim>\<open>AttributeError\<close> when the frame decodes to something that is not a dict, and the
  membership test raises \<^verbatim>\<open>TypeError\<close> on an unhashable id. \<^verbatim>\<open>callback(data)\<close> stores
  the data in the closure's \<^verbatim>\<open>result\<close> and sets its event.
\<close>

definition on_message_try :: "(string \<Rightarrow> exn + json) \<Rightarrow> string \<Rightarrow> state \<Rightarrow> exn + state" where
  "on_message_try loads message s =
     (case loads message of
        Inl e \<Rightarrow> Inl e
      | Inr data \<Rightarrow>
          (case data of
             JObj d \<Rightarrow>
               (let message_id = dict_get d ''id'' in
                if \<not> hashable message_id
                then Inl (Exn ''TypeError''
                       (''unhashable type: '' @ quoted (py_type_name message_id)))
                else
                  (case map_of (message_callbacks s) (dict_key message_id) of
                     None \<Rightarrow> Inr s
                   | Some callback \<Rightarrow>
                       Inr (s\<lparr>results := AList.update callback data (results s),
                              message_callbacks :=
                                AList.delete (dict_key message_id) (message_callbacks s)\<rparr>)))
           | _ \<Rightarrow>
               Inl (Exn ''AttributeError''
                 (quoted (py_type_name data) @ '' object has no attribute '' @ quoted ''get''))))"

text \<open>\<^verbatim>\<open>except Exception as e: logger.error(f"Error processing message: {e}")\<close>\<close>

definition on_message :: "(string \<Rightarrow> exn + json) \<Rightarrow> string \<Rightarrow> state \<Rightarrow> state" where
  "on_message loads message s =
     (case on_message_try loads message s of
        Inl e \<Rightarrow> log_error (''Error processing message: '' @ exn_str e) s
      | Inr s' \<Rightarrow> s')"

definition on_error :: "string \<Rightarrow> state \<Rightarrow> state" where
  "on_error error s =
     (log_error (''WebSocket error: '' @ error) s)
       \<lparr>ws_connected := False, connection_status := ''Error''\<rparr>"

definition on_close :: "string \<Rightarrow> string \<Rightarrow> state \<Rightarrow> state" where
  "on_close close_status_code close_msg s =
     s\<lparr>ws_connected := False, connection_status := ''Disconnected''\<rparr>"

definition on_open :: "state \<Rightarrow> state" where
  "on_open s = s\<lparr>ws_connected := True, connection_status := ''Connected''\<rparr>"

text \<open>
  The callbacks run on the background thread of \<^verbatim>\<open>run_forever\<close>. The calling thread
  meets them where it blocks (\<^verbatim>\<open>time.sleep\<close>, \<^verbatim>\<open>event.wait\<close>) and between calls.
\<close>

datatype ws_event = Open | Message string | Error string | Close string string

fun bg_step :: "(string \<Rightarrow> exn + json) \<Rightarrow> ws_event \<Rightarrow> state \<Rightarrow> state" where
  "bg_step loads Open s = on_open s"
| "bg_step loads (Message m) s = on_message loads m s"
| "bg_step loads (Error e) s = on_error e s"
| "bg_step loads (Close code msg) s = on_close code msg s"

fun bg_run :: "(string \<Rightarrow> exn + json) \<Rightarrow> ws_event list \<Rightarrow> state \<Rightarrow> state" where
  "bg_run loads [] s = s"
| "bg_run loads (ev # evs) s = bg_run loads evs (bg_step loads ev s)"

subsection \<open>The environment of one call\<close>

text \<open>
  One attempt of the HTTP \<^verbatim>\<open>try\<close> body (\<^verbatim>\<open>requests.post\<close>, \<^verbatim>\<open>raise_for_status\<close>,
  \<^verbatim>\<open>response.json()\<close>) ends in one of three ways: a
  \<^verbatim>\<open>requests.exceptions.RequestException\<close> with its \<^verbatim>\<open>str(e)\<close> (connection refused, a
  timeout, the \<^verbatim>\<open>HTTPError\<close> of \<^verbatim>\<open>raise_for_status\<close>), any other exception, or the decoded
  body.
\<close>

datatype attempt = Raises_RequestException string | Raises_other exn | Returns json

text \<open>
  Everything \<^verbatim>\<open>send_message\<close> does not decide itself: the UUID \<^verbatim>\<open>uuid.uuid4()\<close> gives,
  the functions of the \<^verbatim>\<open>json\<close> module, how the server answers the k-th HTTP attempt,
  which callbacks run during the k-th \<^verbatim>\<open>time.sleep(0.5)\<close> of the connection poll, whether
  \<^verbatim>\<open>self.ws.send\<close> raises, and which callbacks run, in order, while the caller is in
  \<^verbatim>\<open>event.wait\<close> before the timeout expires.
\<close>

record env =
  uuid4 :: string
  json_dumps :: "json \<Rightarrow> string"
  json_loads :: "string \<Rightarrow> exn + json"
  http :: "nat \<Rightarrow> attempt"
  during_poll :: "nat \<Rightarrow> ws_event list"
  ws_send_raises :: "exn option"
  during_wait :: "ws_event list"

subsection \<open>send_message\<close>

text \<open>\<^verbatim>\<open>for _ in range(10): if self.ws_connected: break; time.sleep(0.5)\<close>\<close>

fun poll :: "env \<Rightarrow> nat list \<Rightarrow> state \<Rightarrow> state" where
  "poll e [] s = s"
| "poll e (k # ks) s =
     (if ws_connected s then s
      else poll e ks
             (bg_run (json_loads e) (during_poll e k) (s\<lparr>trace := trace s @ [Sleep_poll]\<rparr>)))"

text \<open>
  \<^verbatim>\<open>event.wait(timeout=self.timeout)\<close> for the closure \<open>tok\<close>: it returns as soon as the
  event is set; when the callbacks that run before the timeout are used up and the event
  is still not set, the call has timed out.
\<close>

definition timed_out :: "state \<Rightarrow> (exn + json) \<times> state" where
  "timed_out s =
     (Inr (JObj [(''error'', JStr ''Request timed out'')]), log_error ''Request timed out'' s)"

fun wait :: "(string \<Rightarrow> exn + json) \<Rightarrow> nat \<Rightarrow> ws_event list \<Rightarrow> state \<Rightarrow> (exn + json) \<times> state" where
  "wait loads tok [] s =
     (case map_of (results s) tok of Some r \<Rightarrow> (Inr r, s) | None \<Rightarrow> timed_out s)"
| "wait loads tok (ev # evs) s =
     (case map_of (results s) tok of
        Some r \<Rightarrow> (Inr r, s)
      | None \<Rightarrow> wait loads tok evs (bg_step loads ev s))"

definition send_ws :: "config \<Rightarrow> env \<Rightarrow> nat \<Rightarrow> state \<Rightarrow> (exn + json) \<times> state" where
  "send_ws c e m s1 =
     (let s2 = (if \<not> ws_connected s1 then poll e [0..<10] (connect_websocket c s1) else s1) in
      if \<not> ws_connected s2
      then (Inr (JObj [(''error'', JStr ''Failed to connect to WebSocket'')]),
            log_error ''Failed to connect to WebSocket'' s2)
      else
        let message_id = dict_get (heap s2 m) ''id'' in
        if \<not> hashable message_id
        then (Inl (Exn ''TypeError'' (''unhashable type: '' @ quoted (py_type_name message_id))), s2)
        else
          let callback = next_call s2;
              s3 = s2\<lparr>message_callbacks :=
                        AList.update (dict_key message_id) callback (message_callbacks s2),
                      next_call := Suc callback\<rparr>
          in
          (case ws s3 of
             None \<Rightarrow>
               (Inl (Exn ''AttributeError''
                  (quoted ''NoneType'' @ '' object has no attribute '' @ quoted ''send'')), s3)
           | Some w \<Rightarrow>
               (case ws_send_raises e of
                  Some x \<Rightarrow> (Inl x, s3)
                | None \<Rightarrow>
                    wait (json_loads e) callback (during_wait e)
                      (s3\<lparr>trace := trace s3 @
                           [Ws_send w (json_dumps e (JObj (heap s3 m))),
                            Event_wait callback (timeout c)]\<rparr>))))"

text \<open>
  \<^verbatim>\<open>for attempt in range(self.max_retries + 1)\<close>, over the list of attempt numbers. A
  loop that runs out without returning makes the method return \<^verbatim>\<open>None\<close>.
\<close>

fun http_loop :: "config \<Rightarrow> env \<Rightarrow> nat \<Rightarrow> nat list \<Rightarrow> state \<Rightarrow> (exn + json) \<times> state" where
  "http_loop c e m [] s = (Inr JNull, s)"
| "http_loop c e m (attempt # rest) s =
     (let s' = s\<lparr>trace := trace s @
                 [Http_post (server_url c) (get_headers c) (heap s m) (timeout c)]\<rparr>
      in
      case http e attempt of
        Returns d \<Rightarrow> (Inr d, s')
      | Raises_other x \<Rightarrow> (Inl x, s')
      | Raises_RequestException x \<Rightarrow>
          (let s'' = log_error (''HTTP request failed: '' @ x) s' in
           if int attempt < max_retries c
           then http_loop c e m rest (s''\<lparr>trace := trace s'' @ [Sleep_retry (retry_delay c)]\<rparr>)
           else (Inr (JObj [(''error'', JStr (''HTTP request failed after '' @
                   str_int (max_retries c + 1) @ '' attempts: '' @ x))]), s'')))"

definition send_message :: "config \<Rightarrow> env \<Rightarrow> nat \<Rightarrow> state \<Rightarrow> (exn + json) \<times> state" where
  "send_message c e m s =
     (let s1 = (if \<not> truthy (dict_get (heap s m) ''id'')
                then s\<lparr>heap := (heap s)(m := AList.update ''id'' (JStr (uuid4 e)) (heap s m))\<rparr>
                else s)
      in
      if connection_type c = ''WebSocket'' then send_ws c e m s1
      else http_loop c e m [0..<nat (max_retries c + 1)] s1)"

subsection \<open>Named operations\<close>

text \<open>A dictionary literal: a new object.\<close>

definition new_dict :: "pydict \<Rightarrow> state \<Rightarrow> nat \<times> state" where
  "new_dict d s = (next_obj s, s\<lparr>heap := (heap s)(next_obj s := d), next_obj := Suc (next_obj s)\<rparr>)"

definition list_workflows :: "config \<Rightarrow> env \<Rightarrow> state \<Rightarrow> (exn + json) \<times> state" where
  "list_workflows c e s =
     (let (message, s') = new_dict
        [(''type'', JStr ''message''),
         (''name'', JStr ''listWorkflows''),
         (''data'', JObj [(''operation'', JStr ''listWorkflows''),
                          (''workflowIds'', JStr ''null''),
                          (''parameters'', JStr ''null'')])] s
      in send_message c e message s')"

definition search_workflows :: "config \<Rightarrow> env \<Rightarrow> state \<Rightarrow> (exn + json) \<times> state" where
  "search_workflows c e s =
     (let (message, s') = new_dict
        [(''type'', JStr ''message''),
         (''name'', JStr ''searchWorkflows''),
         (''data'', JObj [(''operation'', JStr ''searchWorkflows''),
                          (''workflowIds'', JStr ''null''),
                          (''parameters'', JStr ''null'')])] s
      in send_message c e message s')"

definition add_workflow :: "config \<Rightarrow> env \<Rightarrow> string \<Rightarrow> state \<Rightarrow> (exn + json) \<times> state" where
  "add_workflow c e workflow_ids s =
     (let (message, s') = new_dict
        [(''type'', JStr ''message''),
         (''name'', JStr ''addWorkflow''),
         (''data'', JObj [(''operation'', JStr ''addWorkflow''),
                          (''workflowIds'', JStr workflow_ids),
                          (''parameters'', JStr ''null'')])] s
      in send_message c e message s')"

definition remove_workflow :: "config \<Rightarrow> env \<Rightarrow> string \<Rightarrow> state \<Rightarrow> (exn + json) \<times> state" where
  "remove_workflow c e workflow_ids s =
     (let (message, s') = new_dict
        [(''type'', JStr ''message''),
         (''name'', JStr ''removeWorkflow''),
         (''data'', JObj [(''operation'', JStr ''removeWorkflow''),
                          (''workflowIds'', JStr workflow_ids),
                          (''parameters'', JStr ''null'')])] s
      in send_message c e message s')"

definition execute_workflow ::
  "config \<Rightarrow> env \<Rightarrow> string \<Rightarrow> pydict \<Rightarrow> state \<Rightarrow> (exn + json) \<times> state" where
  "execute_workflow c e workflow_id parameters s =
     (let (message, s') = new_dict
        [(''type'', JStr ''message''),
         (''name'', JStr ''executeWorkflow''),
         (''data'', JObj [(''operation'', JStr ''executeWorkflow''),
                          (''workflowIds'', JStr workflow_id),
                          (''parameters'', JStr (json_dumps e (JObj parameters)))])] s
      in send_message c e message s')"

definition custom_command ::
  "config \<Rightarrow> env \<Rightarrow> string \<Rightarrow> pydict \<Rightarrow> state \<Rightarrow> (exn + json) \<times> state" where
  "custom_command c e command_name data s =
     (let (message, s') = new_dict
        [(''type'', JStr ''message''),
         (''name'', JStr command_name),
         (''data'', JObj data)] s
      in send_message c e message s')"

section \<open>Reading the trace\<close>

text \<open>The effects a step added: what \<open>s'\<close> has recorded beyond \<open>s\<close>.\<close>

definition effects_since :: "state \<Rightarrow> state \<Rightarrow> effect list" where
  "effects_since s s' = drop (length (trace s)) (trace s')"

fun is_log :: "effect \<Rightarrow> bool" where
  "is_log (Log_error t) = True"
| "is_log x = False"

fun is_post :: "effect \<Rightarrow> bool" where
  "is_post (Http_post u h b t) = True"
| "is_post x = False"

fun is_retry_sleep :: "effect \<Rightarrow> bool" where
  "is_retry_sleep (Sleep_retry d) = True"
| "is_retry_sleep x = False"

fun is_ws_send :: "effect \<Rightarrow> bool" where
  "is_ws_send (Ws_send w txt) = True"
| "is_ws_send x = False"

fun is_poll_sleep :: "effect \<Rightarrow> bool" where
  "is_poll_sleep Sleep_poll = True"
| "is_poll_sleep x = False"

text \<open>
  An effect that puts an envelope on the wire carries the dictionary \<open>b\<close>: as the
  \<^verbatim>\<open>json=\<close> argument of the POST, or as the \<^verbatim>\<open>json.dumps\<close> text of the frame.
\<close>

fun carries :: "(json \<Rightarrow> string) \<Rightarrow> pydict \<Rightarrow> effect \<Rightarrow> bool" where
  "carries dumps b (Http_post u h body t) = (body = b)"
| "carries dumps b (Ws_send w txt) = (txt = dumps (JObj b))"
| "carries dumps b x = True"

text \<open>The values \<^verbatim>\<open>data.get\<close> works on.\<close>

fun is_dict :: "json \<Rightarrow> bool" where
  "is_dict (JObj d) = True"
| "is_dict v = False"

text \<open>The events that deliver a frame.\<close>

fun is_message :: "ws_event \<Rightarrow> bool" where
  "is_message (Message m) = True"
| "is_message ev = False"

text \<open>The \<^verbatim>\<open>str(e)\<close> of the exception an attempt ended with.\<close>

fun failure_text :: "attempt \<Rightarrow> string" where
  "failure_text (Raises_RequestException x) = x"
| "failure_text (Raises_other x) = exn_str x"
| "failure_text (Returns d) = []"

fun is_request_exception :: "attempt \<Rightarrow> bool" where
  "is_request_exception (Raises_RequestException x) = True"
| "is_request_exception a = False"

text \<open>One failed attempt: the POST and the error line that follows it.\<close>

definition failed_attempt :: "config \<Rightarrow> env \<Rightarrow> pydict \<Rightarrow> nat \<Rightarrow> effect list" where
  "failed_attempt c e body k =
     [Http_post (server_url c) (get_headers c) body (timeout c),
      Log_error (''HTTP request failed: '' @ failure_text (http e k))]"


text \<open>The message dictionary as \<^verbatim>\<open>send_message\<close> leaves it after its first two lines.\<close>

definition with_id :: "env \<Rightarrow> pydict \<Rightarrow> pydict" where
  "with_id e d =
     (if \<not> truthy (dict_get d ''id'') then AList.update ''id'' (JStr (uuid4 e)) d else d)"

section \<open>One HTTP attempt in detail\<close>

text \<open>
  What the server does to one POST: no response at all (connection refused, a timeout),
  with the text of the exception, or a response with its status, reason and body.
\<close>

datatype exchange = No_response string | Response int string string

text \<open>
  \<^verbatim>\<open>response.raise_for_status()\<close>: the text of the \<^verbatim>\<open>HTTPError\<close> it raises for a 4xx or a
  5xx status, nothing for any other status.
\<close>

definition raise_for_status :: "string \<Rightarrow> int \<Rightarrow> string \<Rightarrow> string option" where
  "raise_for_status url status reason =
     (if 400 \<le> status \<and> status < 500
      then Some (str_int status @ '' Client Error: '' @ reason @ '' for url: '' @ url)
      else if 500 \<le> status \<and> status < 600
      then Some (str_int status @ '' Server Error: '' @ reason @ '' for url: '' @ url)
      else None)"

text \<open>
  The three lines of the \<^verbatim>\<open>try\<close>, in order. \<^verbatim>\<open>response.json()\<close> is inside the \<^verbatim>\<open>try\<close>,
  and the \<^verbatim>\<open>JSONDecodeError\<close> it raises on a body that does not decode is a
  \<^verbatim>\<open>RequestException\<close> (requests 2.27 and later).
\<close>

definition try_body :: "config \<Rightarrow> (string \<Rightarrow> exn + json) \<Rightarrow> exchange \<Rightarrow> attempt" where
  "try_body c loads x =
     (case x of
        No_response txt \<Rightarrow> Raises_RequestException txt
      | Response status reason body \<Rightarrow>
          (case raise_for_status (server_url c) status reason of
             Some txt \<Rightarrow> Raises_RequestException txt
           | None \<Rightarrow>
               (case loads body of
                  Inl e \<Rightarrow> Raises_RequestException (exn_str e)
                | Inr d \<Rightarrow> Returns d)))"

text \<open>
  A network-level failure in the words of the specification: connection refused, timeout,
  or a status that is not 2xx.
\<close>

fun network_level_failure :: "exchange \<Rightarrow> bool" where
  "network_level_failure (No_response txt) = True"
| "network_level_failure (Response status reason body) = (\<not> (200 \<le> status \<and> status < 300))"

text \<open>
  The attempts \<open>ks\<close>, each failed and followed by \<^verbatim>\<open>time.sleep(self.retry_delay)\<close>, then
  one more POST.
\<close>

definition retried_run :: "config \<Rightarrow> env \<Rightarrow> pydict \<Rightarrow> nat list \<Rightarrow> effect list" where
  "retried_run c e body ks =
     concat (map (\<lambda>k. failed_attempt c e body k @ [Sleep_retry (retry_delay c)]) ks) @
     [Http_post (server_url c) (get_headers c) body (timeout c)]"

section \<open>The operation contracts\<close>

text \<open>The five named operations, and the method of the client each one is.\<close>

datatype operation =
    ListWorkflows
  | SearchWorkflows
  | AddWorkflow string
  | RemoveWorkflow string
  | ExecuteWorkflow string pydict

fun invoke_named :: "config \<Rightarrow> env \<Rightarrow> operation \<Rightarrow> state \<Rightarrow> (exn + json) \<times> state" where
  "invoke_named c e ListWorkflows s = list_workflows c e s"
| "invoke_named c e SearchWorkflows s = search_workflows c e s"
| "invoke_named c e (AddWorkflow workflow_ids) s = add_workflow c e workflow_ids s"
| "invoke_named c e (RemoveWorkflow workflow_ids) s = remove_workflow c e workflow_ids s"
| "invoke_named c e (ExecuteWorkflow workflow_id parameters) s =
     execute_workflow c e workflow_id parameters s"

text \<open>
  The rows of the specification's table of payload shapes: operation, workflowIds,
  parameters.
\<close>

fun contract_row :: "env \<Rightarrow> operation \<Rightarrow> string \<times> string \<times> string" where
  "contract_row e ListWorkflows = (''listWorkflows'', ''null'', ''null'')"
| "contract_row e SearchWorkflows = (''searchWorkflows'', ''null'', ''null'')"
| "contract_row e (AddWorkflow workflow_ids) = (''addWorkflow'', workflow_ids, ''null'')"
| "contract_row e (RemoveWorkflow workflow_ids) = (''removeWorkflow'', workflow_ids, ''null'')"
| "contract_row e (ExecuteWorkflow workflow_id parameters) =
     (''executeWorkflow'', workflow_id, json_dumps e (JObj parameters))"

text \<open>
  The request of the specification's wire format for a row, before the id is added.
\<close>

fun contract_request :: "string \<times> string \<times> string \<Rightarrow> pydict" where
  "contract_request (operation, workflow_ids, parameters) =
     [(''type'', JStr ''message''),
      (''name'', JStr operation),
      (''data'', JObj [(''operation'', JStr operation),
                       (''workflowIds'', JStr workflow_ids),
                       (''parameters'', JStr parameters)])]"

section \<open>Concrete inputs\<close>

definition cfg_http :: config where
  "cfg_http = \<lparr>server_url = ''http://localhost:5678/api/mcp'', api_key = None,
     connection_type = ''HTTP'', timeout = 30, max_retries = 2, retry_delay = 1\<rparr>"

definition cfg_ws :: config where
  "cfg_ws = \<lparr>server_url = ''http://localhost:5678/api/mcp'', api_key = Some ''k'',
     connection_type = ''WebSocket'', timeout = 1, max_retries = 3, retry_delay = 1\<rparr>"

text \<open>A client just constructed, and one whose connection is open.\<close>

definition st_new :: state where
  "st_new = \<lparr>ws = None, ws_connected = False, message_callbacks = [],
     connection_status = ''Disconnected'', heap = (\<lambda>a. []), next_obj = 0, results = [],
     next_call = 0, next_ws = 0, trace = []\<rparr>"

definition st_open :: state where
  "st_open = \<lparr>ws = Some 0, ws_connected = True, message_callbacks = [],
     connection_status = ''Connected'', heap = (\<lambda>a. []), next_obj = 0, results = [],
     next_call = 0, next_ws = 1, trace = []\<rparr>"

text \<open>
  A new client and a message dictionary of the caller's, whose id is the empty string.
\<close>

definition st_custom :: state where
  "st_custom = st_new\<lparr>heap := (\<lambda>a. [])(0 := [(''id'', JStr []), (''type'', JStr ''message''),
     (''name'', JStr ''ping''), (''data'', JObj [])]), next_obj := 1\<rparr>"

text \<open>An open connection with one call pending under the id \<^verbatim>\<open>a\<close>.\<close>

definition st_pending :: state where
  "st_pending = st_open\<lparr>message_callbacks := [(JStr ''a'', 0)], next_call := 1\<rparr>"

text \<open>An open connection with two calls pending, under the ids \<^verbatim>\<open>a\<close> and \<^verbatim>\<open>b\<close>.\<close>

definition st_two :: state where
  "st_two = st_open\<lparr>message_callbacks := [(JStr ''a'', 0), (JStr ''b'', 1)], next_call := 2\<rparr>"

text \<open>
  A decoder that knows three frames: a reply to the id \<^verbatim>\<open>u-1\<close>, a reply to the id
  \<^verbatim>\<open>a\<close>, and a JSON list; anything else is malformed.
\<close>

definition loads_ex :: "string \<Rightarrow> exn + json" where
  "loads_ex frame =
     (if frame = ''reply u-1'' then Inr (JObj [(''id'', JStr ''u-1''), (''response'', JStr ''ok'')])
      else if frame = ''reply a'' then Inr (JObj [(''id'', JStr ''a''), (''response'', JStr ''ok'')])
      else if frame = ''list'' then Inr (JArr [JInt 1])
      else Inl (Exn ''JSONDecodeError'' ''Expecting value''))"

text \<open>A decoder whose every frame is a reply with a list as its id.\<close>

definition loads_list_id :: "string \<Rightarrow> exn + json" where
  "loads_list_id frame = Inr (JObj [(''id'', JArr [JInt 1])])"

text \<open>A server that is down, and a silent WebSocket peer.\<close>

definition env_down :: env where
  "env_down = \<lparr>uuid4 = ''u-1'', json_dumps = (\<lambda>j. ''json''), json_loads = loads_ex,
     http = (\<lambda>k. Raises_RequestException ''Connection refused''),
     during_poll = (\<lambda>k. []), ws_send_raises = None, during_wait = []\<rparr>"

text \<open>A server that answers the first attempt with a reply that carries an error field.\<close>

definition env_app_error :: env where
  "env_app_error = env_down\<lparr>http := (\<lambda>k. Returns (JObj [(''id'', JStr ''u-1''),
     (''error'', JStr ''no such workflow'')]))\<rparr>"

text \<open>
  A server that answers 200 with a body that is not JSON, then 200 with a reply to the id
  \<^verbatim>\<open>u-1\<close>.
\<close>

definition env_bad_body :: env where
  "env_bad_body = env_down\<lparr>http := (\<lambda>k. try_body cfg_http loads_ex
     (if k = 0 then Response 200 ''OK'' ''garbage'' else Response 200 ''OK'' ''reply u-1''))\<rparr>"

text \<open>A connection that has dropped: \<^verbatim>\<open>self.ws.send\<close> raises.\<close>

definition env_send_fails :: env where
  "env_send_fails = env_down\<lparr>ws_send_raises :=
     Some (Exn ''WebSocketConnectionClosedException'' ''Connection is already closed.'')\<rparr>"

section \<open>What the steps leave alone\<close>

lemmas callback_defs =
  on_open_def on_close_def on_error_def on_message_def on_message_try_def log_error_def

lemma bg_step_frame:
  "heap (bg_step l ev s) = heap s"
  "ws (bg_step l ev s) = ws s"
  "next_ws (bg_step l ev s) = next_ws s"
  "next_call (bg_step l ev s) = next_call s"
  "next_obj (bg_step l ev s) = next_obj s"
  by (cases ev; simp add: callback_defs Let_def split: sum.splits json.splits option.splits)+

lemma bg_run_frame:
  "heap (bg_run l evs s) = heap s"
  "ws (bg_run l evs s) = ws s"
  "next_ws (bg_run l evs s) = next_ws s"
  "next_call (bg_run l evs s) = next_call s"
  "next_obj (bg_run l evs s) = next_obj s"
  by (induction evs arbitrary: s; simp add: bg_step_frame)+

lemma poll_frame:
  "heap (poll e ks s) = heap s"
  "ws (poll e ks s) = ws s"
  "next_ws (poll e ks s) = next_ws s"
  "next_call (poll e ks s) = next_call s"
  "next_obj (poll e ks s) = next_obj s"
  by (induction ks arbitrary: s; simp add: bg_run_frame)+

lemma timed_out_frame:
  "heap (snd (timed_out s)) = heap s"
  "ws (snd (timed_out s)) = ws s"
  "next_ws (snd (timed_out s)) = next_ws s"
  "next_call (snd (timed_out s)) = next_call s"
  "next_obj (snd (timed_out s)) = next_obj s"
  by (simp_all add: timed_out_def log_error_def)

lemma wait_frame:
  "heap (snd (wait l tok evs s)) = heap s"
  "ws (snd (wait l tok evs s)) = ws s"
  "next_ws (snd (wait l tok evs s)) = next_ws s"
  "next_call (snd (wait l tok evs s)) = next_call s"
  "next_obj (snd (wait l tok evs s)) = next_obj s"
  by (induction evs arbitrary: s;
      simp add: bg_step_frame timed_out_frame split: option.splits)+

lemma http_loop_frame:
  "heap (snd (http_loop c e m ks s)) = heap s"
  "ws (snd (http_loop c e m ks s)) = ws s"
  "next_ws (snd (http_loop c e m ks s)) = next_ws s"
  "next_call (snd (http_loop c e m ks s)) = next_call s"
  "next_obj (snd (http_loop c e m ks s)) = next_obj s"
  "message_callbacks (snd (http_loop c e m ks s)) = message_callbacks s"
  "ws_connected (snd (http_loop c e m ks s)) = ws_connected s"
  by (induction ks arbitrary: s; simp add: Let_def log_error_def split: attempt.splits)+

lemma send_ws_connected_keeps_ws:
  assumes "ws_connected s"
  shows "ws (snd (send_ws c e m s)) = ws s" "next_ws (snd (send_ws c e m s)) = next_ws s"
  using assms by (simp_all add: send_ws_def Let_def wait_frame split: option.splits)

lemma send_message_connected_keeps_ws:
  assumes "ws_connected s"
  shows "ws (snd (send_message c e m s)) = ws s"
    "next_ws (snd (send_message c e m s)) = next_ws s"
  using assms
  by (simp_all add: send_message_def Let_def send_ws_connected_keeps_ws http_loop_frame)

section \<open>Connecting\<close>

text \<open>
  C4, as the specification states it: \<^verbatim>\<open>connect()\<close> is idempotent; called while the
  WebSocket transport is already connected it opens no new connection, starts no new
  connection attempt and changes no state. The code has no such guard. On a client whose
  connection is open (\<^verbatim>\<open>self.ws\<close> is the application 0), \<^verbatim>\<open>connect_websocket\<close> builds the
  application 1, stores it in \<^verbatim>\<open>self.ws\<close> and starts a thread for it.
\<close>

theorem connect_websocket_not_idempotent:
  "ws_connected st_open \<and> ws st_open = Some 0 \<and>
   ws (connect_websocket cfg_ws st_open) = Some 1 \<and>
   trace st_open = [] \<and>
   trace (connect_websocket cfg_ws st_open) =
     [Ws_app_created 1 ''ws://localhost:5678/api/mcp''
        [(''Content-Type'', ''application/json''), (''Authorization'', ''Bearer k'')],
      Thread_started 1] \<and>
   connect_websocket cfg_ws st_open \<noteq> st_open"
proof -
  have "ws (connect_websocket cfg_ws st_open) \<noteq> ws st_open"
    by (simp add: connect_websocket_def cfg_ws_def st_open_def Let_def)
  then have "connect_websocket cfg_ws st_open \<noteq> st_open"
    by metis
  then show ?thesis
    by (simp add: connect_websocket_def cfg_ws_def st_open_def ws_url_of_def
        get_headers_def Let_def)
qed

text \<open>
  C4, amended: \<^verbatim>\<open>connect_websocket\<close> does not look at the connection state. It is a no-op
  exactly when the connection type is not WebSocket; otherwise, connected or not, it
  creates a new \<^verbatim>\<open>WebSocketApp\<close> for the rewritten URL, stores it in \<^verbatim>\<open>self.ws\<close> and starts
  a new background thread, and leaves \<^verbatim>\<open>ws_connected\<close> and the pending calls as they are.
  The guard is in the caller: \<^verbatim>\<open>send_message\<close> on a connected client opens no connection
  and keeps \<^verbatim>\<open>self.ws\<close>.
\<close>

theorem connect_websocket_unguarded:
  "(connection_type c \<noteq> ''WebSocket'' \<longrightarrow> connect_websocket c s = s) \<and>
   (connection_type c = ''WebSocket'' \<longrightarrow>
      ws (connect_websocket c s) = Some (next_ws s) \<and>
      next_ws (connect_websocket c s) = Suc (next_ws s) \<and>
      effects_since s (connect_websocket c s) =
        [Ws_app_created (next_ws s) (ws_url_of c) (get_headers c), Thread_started (next_ws s)] \<and>
      ws_connected (connect_websocket c s) = ws_connected s \<and>
      message_callbacks (connect_websocket c s) = message_callbacks s) \<and>
   (ws_connected s \<longrightarrow>
      ws (snd (send_message c e m s)) = ws s \<and>
      next_ws (snd (send_message c e m s)) = next_ws s)"
  by (simp add: connect_websocket_def Let_def effects_since_def
      send_message_connected_keeps_ws)

theorem connect_websocket_unguarded_witness:
  "connection_type cfg_ws = ''WebSocket'' \<and> ws_connected st_open \<and>
   ws (connect_websocket cfg_ws st_open) = Some 1 \<and>
   next_ws (connect_websocket cfg_ws st_open) = 2 \<and>
   effects_since st_open (connect_websocket cfg_ws st_open) =
     [Ws_app_created 1 ''ws://localhost:5678/api/mcp''
        [(''Content-Type'', ''application/json''), (''Authorization'', ''Bearer k'')],
      Thread_started 1] \<and>
   ws_connected (connect_websocket cfg_ws st_open) \<and>
   ws (snd (send_message cfg_ws env_down 0 st_open)) = Some 0 \<and>
   next_ws (snd (send_message cfg_ws env_down 0 st_open)) = 1 \<and>
   connection_type cfg_http \<noteq> ''WebSocket'' \<and>
   connect_websocket cfg_http st_open = st_open"
  using connect_websocket_unguarded [of cfg_ws st_open env_down 0]
    connect_websocket_unguarded [of cfg_http st_open env_down 0]
  by (simp add: cfg_ws_def cfg_http_def st_open_def ws_url_of_def get_headers_def)

section \<open>Waiting for a reply\<close>

lemma bg_step_no_message:
  assumes "\<not> is_message ev"
  shows "results (bg_step l ev s) = results s"
    "message_callbacks (bg_step l ev s) = message_callbacks s"
  using assms by (cases ev; simp add: on_open_def on_close_def on_error_def log_error_def)+

lemma bg_run_no_message:
  assumes "list_all (\<lambda>ev. \<not> is_message ev) evs"
  shows "results (bg_run l evs s) = results s \<and>
    message_callbacks (bg_run l evs s) = message_callbacks s"
  using assms by (induction evs arbitrary: s) (simp_all add: bg_step_no_message)

text \<open>A result slot, once filled, stays filled.\<close>

lemma bg_step_results_mono:
  assumes "map_of (results s) tok = Some r"
  shows "\<exists>r'. map_of (results (bg_step l ev s)) tok = Some r'"
  using assms
  by (cases ev; simp add: callback_defs Let_def AList.update_conv'
      split: sum.splits json.splits option.splits)

lemma bg_run_results_mono:
  assumes "map_of (results s) tok = Some r"
  shows "\<exists>r'. map_of (results (bg_run l evs s)) tok = Some r'"
  using assms
proof (induction evs arbitrary: s r)
  case Nil
  then show ?case by simp
next
  case (Cons ev evs)
  from bg_step_results_mono [OF Cons.prems] obtain r' where
    "map_of (results (bg_step l ev s)) tok = Some r'" by blast
  from Cons.IH [OF this] show ?case by simp
qed

text \<open>If nothing is delivered to the closure before the timeout, the wait times out.\<close>

lemma wait_timeout:
  assumes "map_of (results (bg_run l evs s)) tok = None"
  shows "wait l tok evs s = timed_out (bg_run l evs s)"
  using assms
proof (induction evs arbitrary: s)
  case Nil
  then show ?case by simp
next
  case (Cons ev evs)
  have "map_of (results s) tok = None"
  proof (cases "map_of (results s) tok")
    case None
    then show ?thesis .
  next
    case (Some r)
    from bg_run_results_mono [OF this, of l "ev # evs"] Cons.prems show ?thesis by simp
  qed
  with Cons show ?case by simp
qed

section \<open>Losing the connection\<close>

text \<open>
  C2, as the specification states it: when the WebSocket connection leaves Connected (an
  error event or a close event), every pending call is failed with a connection-lost error
  and none is left waiting without being signalled. In the code \<^verbatim>\<open>on_error\<close> and
  \<^verbatim>\<open>on_close\<close> do not touch the pending calls: with one call pending under the id
  \<^verbatim>\<open>a\<close>, after either event the entry is still in \<^verbatim>\<open>message_callbacks\<close> and its closure
  has received nothing.
\<close>

theorem pending_call_survives_error:
  "map_of (message_callbacks st_pending) (JStr ''a'') = Some 0 \<and>
   map_of (message_callbacks (on_error ''reset'' st_pending)) (JStr ''a'') = Some 0 \<and>
   map_of (results (on_error ''reset'' st_pending)) 0 = None \<and>
   map_of (message_callbacks (on_close ''1006'' '''' st_pending)) (JStr ''a'') = Some 0 \<and>
   map_of (results (on_close ''1006'' '''' st_pending)) 0 = None"
  by (simp add: on_error_def on_close_def log_error_def st_pending_def st_open_def)

text \<open>
  C2, amended: on an error or a close event the client records the transition
  (\<^verbatim>\<open>ws_connected\<close> becomes false, the status becomes Error or Disconnected) and leaves
  every pending call as it is: the table of pending calls and every result slot are
  unchanged, so the event signals nobody. A call that is waiting, and to which only open,
  error and close events happen before its timeout, returns through its own timeout with
  the pending table still unchanged.
\<close>

theorem close_and_error_signal_nobody:
  "ws_connected (on_error x s) = False \<and>
   connection_status (on_error x s) = ''Error'' \<and>
   message_callbacks (on_error x s) = message_callbacks s \<and>
   results (on_error x s) = results s \<and>
   ws_connected (on_close code msg s) = False \<and>
   connection_status (on_close code msg s) = ''Disconnected'' \<and>
   message_callbacks (on_close code msg s) = message_callbacks s \<and>
   results (on_close code msg s) = results s \<and>
   (map_of (results s) tok = None \<and> list_all (\<lambda>ev. \<not> is_message ev) evs \<longrightarrow>
      wait l tok evs s = timed_out (bg_run l evs s) \<and>
      message_callbacks (bg_run l evs s) = message_callbacks s)"
  by (simp add: on_error_def on_close_def log_error_def bg_run_no_message wait_timeout)

theorem close_and_error_signal_nobody_witness:
  "map_of (results st_pending) 0 = None \<and>
   list_all (\<lambda>ev. \<not> is_message ev) [Error ''reset'', Close ''1006'' ''''] \<and>
   fst (wait loads_ex 0 [Error ''reset'', Close ''1006'' ''''] st_pending) =
     Inr (JObj [(''error'', JStr ''Request timed out'')]) \<and>
   message_callbacks (snd (wait loads_ex 0 [Error ''reset'', Close ''1006'' ''''] st_pending)) =
     [(JStr ''a'', 0)] \<and>
   ws_connected (on_error ''reset'' st_pending) = False"
  using close_and_error_signal_nobody
    [of "''reset''" st_pending "''1006''" "''''" 0 "[Error ''reset'', Close ''1006'' '''']"
      loads_ex]
  by (simp add: st_pending_def st_open_def timed_out_def log_error_def on_error_def
      on_close_def)

section \<open>A call that times out\<close>

text \<open>
  C1: a WebSocket call whose completion signal does not arrive within the timeout returns
  the error \<^verbatim>\<open>Request timed out\<close> and removes its entry from the pending calls, so that a
  reply with the same id arriving later is delivered to no caller. The code returns the
  error but keeps the entry. Here \<^verbatim>\<open>list_workflows\<close> runs on an open connection whose peer
  never answers: the call times out, its entry (under the generated id) is still in
  \<^verbatim>\<open>message_callbacks\<close>, and the reply that arrives afterwards is handed to the closure of
  the call that has already returned, and only then is the entry deleted.
\<close>

theorem timeout_keeps_pending_entry:
  "fst (list_workflows cfg_ws env_down st_open) =
     Inr (JObj [(''error'', JStr ''Request timed out'')]) \<and>
   message_callbacks (snd (list_workflows cfg_ws env_down st_open)) = [(JStr ''u-1'', 0)] \<and>
   map_of (results (snd (list_workflows cfg_ws env_down st_open))) 0 = None \<and>
   results (on_message loads_ex ''reply u-1'' (snd (list_workflows cfg_ws env_down st_open))) =
     [(0, JObj [(''id'', JStr ''u-1''), (''response'', JStr ''ok'')])] \<and>
   message_callbacks
     (on_message loads_ex ''reply u-1'' (snd (list_workflows cfg_ws env_down st_open))) = []"
  by (simp add: list_workflows_def new_dict_def send_message_def send_ws_def Let_def
      cfg_ws_def env_down_def st_open_def dict_get_def timed_out_def log_error_def
      on_message_def on_message_try_def loads_ex_def)

section \<open>Exceptions\<close>

text \<open>
  C5: every connectivity, handshake or timeout failure of either transport comes back from
  a named operation as an error value, and no exception of the transport unwinds past the
  operation. The HTTP path catches \<^verbatim>\<open>RequestException\<close>; the WebSocket path calls
  \<^verbatim>\<open>self.ws.send\<close> outside any \<^verbatim>\<open>try\<close>. When the connection has dropped and the send
  raises, \<^verbatim>\<open>list_workflows\<close> ends with that exception.
\<close>

theorem send_failure_unwinds:
  "ws_connected st_open \<and>
   fst (list_workflows cfg_ws env_send_fails st_open) =
     Inl (Exn ''WebSocketConnectionClosedException'' ''Connection is already closed.'')"
  by (simp add: list_workflows_def new_dict_def send_message_def send_ws_def Let_def
      cfg_ws_def env_send_fails_def env_down_def st_open_def dict_get_def)

section \<open>Inbound frames\<close>

text \<open>
  C9: the receive callback never crashes, whatever the frame. A frame that does not decode
  adds one error line to the log and changes nothing else; so does a frame that decodes to
  something that is not a dict, and one whose id is unhashable. A decoded reply whose id is
  the key of a pending call is handed to that call's closure (result stored, event set) and
  that entry is removed, every other entry staying as it is. A decoded reply whose id is the
  key of no pending call changes nothing. In every case the following frames are processed.
\<close>

theorem on_message_never_raises:
  "(l frame = Inl x \<longrightarrow>
      on_message l frame s =
        s\<lparr>trace := trace s @ [Log_error (''Error processing message: '' @ exn_str x)]\<rparr> \<and>
      message_callbacks (on_message l frame s) = message_callbacks s \<and>
      results (on_message l frame s) = results s) \<and>
   (l frame = Inr data \<and> \<not> is_dict data \<longrightarrow>
      on_message l frame s =
        s\<lparr>trace := trace s @ [Log_error (''Error processing message: '' @
          quoted (py_type_name data) @ '' object has no attribute '' @ quoted ''get'')]\<rparr> \<and>
      message_callbacks (on_message l frame s) = message_callbacks s \<and>
      results (on_message l frame s) = results s) \<and>
   (l frame = Inr (JObj d) \<and> \<not> hashable (dict_get d ''id'') \<longrightarrow>
      on_message l frame s =
        s\<lparr>trace := trace s @ [Log_error (''Error processing message: unhashable type: '' @
          quoted (py_type_name (dict_get d ''id'')))]\<rparr> \<and>
      message_callbacks (on_message l frame s) = message_callbacks s \<and>
      results (on_message l frame s) = results s) \<and>
   (l frame = Inr (JObj d) \<and> hashable (dict_get d ''id'') \<and>
    map_of (message_callbacks s) (dict_key (dict_get d ''id'')) = Some callback \<longrightarrow>
      on_message l frame s =
        s\<lparr>results := AList.update callback (JObj d) (results s),
          message_callbacks :=
            AList.delete (dict_key (dict_get d ''id'')) (message_callbacks s)\<rparr> \<and>
      map_of (results (on_message l frame s)) callback = Some (JObj d) \<and>
      map_of (message_callbacks (on_message l frame s)) (dict_key (dict_get d ''id'')) = None \<and>
      (\<forall>k. k \<noteq> dict_key (dict_get d ''id'') \<longrightarrow>
         map_of (message_callbacks (on_message l frame s)) k = map_of (message_callbacks s) k)) \<and>
   (l frame = Inr (JObj d) \<and> hashable (dict_get d ''id'') \<and>
    map_of (message_callbacks s) (dict_key (dict_get d ''id'')) = None \<longrightarrow>
      on_message l frame s = s) \<and>
   bg_run l (Message frame # evs) s = bg_run l evs (on_message l frame s)"
proof -
  have nd: "l frame = Inr data \<Longrightarrow> \<not> is_dict data \<Longrightarrow>
      on_message l frame s =
        s\<lparr>trace := trace s @ [Log_error (''Error processing message: '' @
          quoted (py_type_name data) @ '' object has no attribute '' @ quoted ''get'')]\<rparr>"
    by (cases data) (simp_all add: on_message_def on_message_try_def log_error_def)
  show ?thesis
    using nd
    by (simp add: on_message_def on_message_try_def log_error_def Let_def
        AList.update_conv' AList.delete_conv')
qed


theorem on_message_never_raises_witness:
  "loads_ex ''garbage'' = Inl (Exn ''JSONDecodeError'' ''Expecting value'') \<and>
   trace (on_message loads_ex ''garbage'' st_two) =
     [Log_error ''Error processing message: Expecting value''] \<and>
   message_callbacks (on_message loads_ex ''garbage'' st_two) =
     [(JStr ''a'', 0), (JStr ''b'', 1)] \<and>
   loads_ex ''list'' = Inr (JArr [JInt 1]) \<and> \<not> is_dict (JArr [JInt 1]) \<and>
   trace (on_message loads_ex ''list'' st_two) =
     [Log_error (''Error processing message: '' @ quoted ''list'' @
        '' object has no attribute '' @ quoted ''get'')] \<and>
   message_callbacks (on_message loads_ex ''list'' st_two) =
     [(JStr ''a'', 0), (JStr ''b'', 1)] \<and>
   loads_list_id ''frame'' = Inr (JObj [(''id'', JArr [JInt 1])]) \<and>
   \<not> hashable (dict_get [(''id'', JArr [JInt 1])] ''id'') \<and>
   trace (on_message loads_list_id ''frame'' st_two) =
     [Log_error (''Error processing message: unhashable type: '' @ quoted ''list'')] \<and>
   message_callbacks (on_message loads_list_id ''frame'' st_two) =
     [(JStr ''a'', 0), (JStr ''b'', 1)] \<and>
   loads_ex ''reply a'' = Inr (JObj [(''id'', JStr ''a''), (''response'', JStr ''ok'')]) \<and>
   map_of (message_callbacks st_two) (JStr ''a'') = Some 0 \<and>
   results (on_message loads_ex ''reply a'' st_two) =
     [(0, JObj [(''id'', JStr ''a''), (''response'', JStr ''ok'')])] \<and>
   message_callbacks (on_message loads_ex ''reply a'' st_two) = [(JStr ''b'', 1)] \<and>
   map_of (message_callbacks st_two) (JStr ''u-1'') = None \<and>
   on_message loads_ex ''reply u-1'' st_two = st_two"
proof -
  have l1: "loads_ex ''garbage'' = Inl (Exn ''JSONDecodeError'' ''Expecting value'')"
    and l2: "loads_ex ''list'' = Inr (JArr [JInt 1])"
    and l3: "loads_list_id ''frame'' = Inr (JObj [(''id'', JArr [JInt 1])])"
    and l4: "loads_ex ''reply a'' = Inr (JObj [(''id'', JStr ''a''), (''response'', JStr ''ok'')])"
    and l5: "loads_ex ''reply u-1'' =
      Inr (JObj [(''id'', JStr ''u-1''), (''response'', JStr ''ok'')])"
    by (simp_all add: loads_ex_def loads_list_id_def)
  have st: "trace st_two = []" "message_callbacks st_two = [(JStr ''a'', 0), (JStr ''b'', 1)]"
    "results st_two = []"
    by (simp_all add: st_two_def st_open_def)
  have g: "on_message loads_ex ''garbage'' st_two =
      st_two\<lparr>trace := trace st_two @ [Log_error (''Error processing message: '' @
        exn_str (Exn ''JSONDecodeError'' ''Expecting value''))]\<rparr>"
    using on_message_never_raises
      [of loads_ex "''garbage''" "Exn ''JSONDecodeError'' ''Expecting value''" st_two] l1
    by blast
  have n: "on_message loads_ex ''list'' st_two =
      st_two\<lparr>trace := trace st_two @ [Log_error (''Error processing message: '' @
        quoted (py_type_name (JArr [JInt 1])) @ '' object has no attribute '' @
        quoted ''get'')]\<rparr>"
    using on_message_never_raises [of loads_ex "''list''" _ st_two "JArr [JInt 1]"] l2
    by simp
  have u: "on_message loads_list_id ''frame'' st_two =
      st_two\<lparr>trace := trace st_two @
        [Log_error (''Error processing message: unhashable type: '' @
          quoted (py_type_name (dict_get [(''id'', JArr [JInt 1])] ''id'')))]\<rparr>"
    using on_message_never_raises
      [of loads_list_id "''frame''" _ st_two _ "[(''id'', JArr [JInt 1])]"] l3
    by (simp add: dict_get_def)
  have m: "on_message loads_ex ''reply a'' st_two =
      st_two\<lparr>results := AList.update 0 (JObj [(''id'', JStr ''a''), (''response'', JStr ''ok'')])
          (results st_two),
        message_callbacks := AList.delete
          (dict_key (dict_get [(''id'', JStr ''a''), (''response'', JStr ''ok'')] ''id''))
          (message_callbacks st_two)\<rparr>"
    using on_message_never_raises
      [of loads_ex "''reply a''" _ st_two _
        "[(''id'', JStr ''a''), (''response'', JStr ''ok'')]" 0] l4
    by (simp add: dict_get_def st)
  have z: "on_message loads_ex ''reply u-1'' st_two = st_two"
    using on_message_never_raises
      [of loads_ex "''reply u-1''" _ st_two _
        "[(''id'', JStr ''u-1''), (''response'', JStr ''ok'')]"] l5
    by (simp add: dict_get_def st)
  show ?thesis
    unfolding g n u m z
    by (simp add: l1 l2 l3 l4 st dict_get_def)
qed

section \<open>The HTTP retry loop\<close>





lemma request_exception_text:
  assumes "is_request_exception a"
  shows "a = Raises_RequestException (failure_text a)"
  using assms by (cases a) simp_all


lemma http_loop_retry_only_after_failure:
  "\<exists>new. trace (snd (http_loop c e m ks s)) = trace s @ new \<and>
     (\<forall>k. k < length (filter is_retry_sleep new) \<longrightarrow>
        k < length ks \<and> is_request_exception (http e (ks ! k)))"
proof (induction ks arbitrary: s)
  case Nil
  then show ?case by simp
next
  case (Cons a ks)
  show ?case
  proof (cases "http e a")
    case (Returns d)
    then show ?thesis by simp
  next
    case (Raises_other x)
    then show ?thesis by simp
  next
    case (Raises_RequestException x)
    show ?thesis
    proof (cases "int a < max_retries c")
      case False
      then show ?thesis using Raises_RequestException by (simp add: log_error_def)
    next
      case True
      let ?s = "s\<lparr>trace := trace s @
        [Http_post (server_url c) (get_headers c) (heap s m) (timeout c),
         Log_error (''HTTP request failed: '' @ x), Sleep_retry (retry_delay c)]\<rparr>"
      from Cons.IH [of ?s] obtain new where
        new: "trace (snd (http_loop c e m ks ?s)) = trace ?s @ new"
          "\<forall>k. k < length (filter is_retry_sleep new) \<longrightarrow>
             k < length ks \<and> is_request_exception (http e (ks ! k))"
        by blast
      have eq: "http_loop c e m (a # ks) s = http_loop c e m ks ?s"
        using Raises_RequestException True by (simp add: log_error_def)
      let ?new = "[Http_post (server_url c) (get_headers c) (heap s m) (timeout c),
         Log_error (''HTTP request failed: '' @ x), Sleep_retry (retry_delay c)] @ new"
      have "trace (snd (http_loop c e m (a # ks) s)) = trace s @ ?new"
        using eq new(1) by simp
      moreover have "\<forall>k. k < length (filter is_retry_sleep ?new) \<longrightarrow>
          k < length (a # ks) \<and> is_request_exception (http e ((a # ks) ! k))"
      proof (intro allI impI)
        fix k assume k: "k < length (filter is_retry_sleep ?new)"
        show "k < length (a # ks) \<and> is_request_exception (http e ((a # ks) ! k))"
        proof (cases k)
          case 0
          then show ?thesis using Raises_RequestException by simp
        next
          case (Suc k')
          with k have "k' < length (filter is_retry_sleep new)" by simp
          with new(2) Suc show ?thesis by simp
        qed
      qed
      ultimately show ?thesis by blast
    qed
  qed
qed


lemma send_message_http:
  assumes "connection_type c \<noteq> ''WebSocket''"
  shows "send_message c e m s =
    http_loop c e m [0..<nat (max_retries c + 1)]
      (s\<lparr>heap := (heap s)(m := with_id e (heap s m))\<rparr>)"
  using assms by (simp add: send_message_def with_id_def Let_def)




lemma retried_run_Cons:
  "retried_run c e b (k # ks) =
     failed_attempt c e b k @ [Sleep_retry (retry_delay c)] @ retried_run c e b ks"
  by (simp add: retried_run_def)

lemma retried_run_Nil:
  "retried_run c e b [] = [Http_post (server_url c) (get_headers c) b (timeout c)]"
  by (simp add: retried_run_def)

lemma retried_run_counts:
  "length (filter is_retry_sleep (retried_run c e b ks)) = length ks"
  "length (filter is_post (retried_run c e b ks)) = Suc (length ks)"
  by (induction ks; simp add: retried_run_Cons retried_run_Nil failed_attempt_def)+

lemma http_loop_reply_at:
  assumes "r = nat (max_retries c)" "0 \<le> max_retries c" "k \<le> r"
    and "\<forall>i<k. is_request_exception (http e i)"
    and "http e k = Returns d"
    and "j \<le> k"
  shows "http_loop c e m [j..<Suc r] s =
           (Inr d, s\<lparr>trace := trace s @ retried_run c e (heap s m) [j..<k]\<rparr>)"
  using assms(6)
proof (induction "k - j" arbitrary: j s)
  case 0
  then have j: "j = k" by simp
  have upt: "[k..<Suc r] = k # [Suc k..<Suc r]"
    using assms(3) by (simp add: upt_conv_Cons)
  show ?case
    unfolding j upt by (simp add: assms(5) retried_run_Nil)
next
  case (Suc n)
  then have lt: "j < k" by simp
  from assms(4) lt have "is_request_exception (http e j)" by simp
  then obtain x where x: "http e j = Raises_RequestException x"
    using request_exception_text by blast
  have cond: "int j < max_retries c" using assms(1,2,3) lt by simp
  have upt: "[j..<Suc r] = j # [Suc j..<Suc r]" "[j..<k] = j # [Suc j..<k]"
    using lt assms(3) by (simp_all add: upt_conv_Cons)
  have IH: "\<And>s. http_loop c e m [Suc j..<Suc r] s =
      (Inr d, s\<lparr>trace := trace s @ retried_run c e (heap s m) [Suc j..<k]\<rparr>)"
    using Suc.hyps(1) [of "Suc j"] Suc.hyps(2) lt by simp
  show ?case
    unfolding upt
    by (simp add: x cond IH retried_run_Cons failed_attempt_def log_error_def del: upt_Suc)
qed

lemma try_body_raises:
  "is_request_exception (try_body c l x) =
     (case x of
        No_response txt \<Rightarrow> True
      | Response status reason body \<Rightarrow>
          (400 \<le> status \<and> status < 600) \<or> (\<exists>err. l body = Inl err))"
  by (auto simp add: try_body_def raise_for_status_def split: exchange.splits sum.splits)

text \<open>
  C6, as the specification states it: on the HTTP path a decoded reply is returned at once
  with no retry consumed, and retries happen only for network-level failures (connection
  refused, timeout, a status that is not 2xx). The second half fails: \<^verbatim>\<open>response.json()\<close>
  is inside the \<^verbatim>\<open>try\<close>, so a 200 whose body does not decode is caught by the same
  \<^verbatim>\<open>except\<close> and retried. Here the first answer is such a 200; the client logs the
  failure, sleeps, posts again and returns the reply of the second attempt.
\<close>

theorem unparseable_body_is_retried:
  "\<not> network_level_failure (Response 200 ''OK'' ''garbage'') \<and>
   http env_bad_body 0 = Raises_RequestException ''Expecting value'' \<and>
   fst (send_message cfg_http env_bad_body 0 st_new) =
     Inr (JObj [(''id'', JStr ''u-1''), (''response'', JStr ''ok'')]) \<and>
   effects_since st_new (snd (send_message cfg_http env_bad_body 0 st_new)) =
     [Http_post ''http://localhost:5678/api/mcp'' [(''Content-Type'', ''application/json'')]
        [(''id'', JStr ''u-1'')] 30,
      Log_error ''HTTP request failed: Expecting value'',
      Sleep_retry 1,
      Http_post ''http://localhost:5678/api/mcp'' [(''Content-Type'', ''application/json'')]
        [(''id'', JStr ''u-1'')] 30]"
proof -
  have a: "http env_bad_body 0 = Raises_RequestException ''Expecting value''"
    and b: "http env_bad_body (Suc 0) =
      Returns (JObj [(''id'', JStr ''u-1''), (''response'', JStr ''ok'')])"
    by (simp_all add: env_bad_body_def env_down_def try_body_def raise_for_status_def
        loads_ex_def)
  have upt: "[0..<nat (max_retries cfg_http + 1)] = [0, Suc 0, Suc (Suc 0)]"
    by (simp add: cfg_http_def upt_conv_Cons)
  have c: "max_retries cfg_http = 2" "connection_type cfg_http = ''HTTP''"
    "retry_delay cfg_http = 1" "timeout cfg_http = 30"
    "server_url cfg_http = ''http://localhost:5678/api/mcp''"
    "get_headers cfg_http = [(''Content-Type'', ''application/json'')]"
    by (simp_all add: cfg_http_def get_headers_def)
  have s: "heap st_new 0 = []" "trace st_new = []"
    by (simp_all add: st_new_def)
  have u: "uuid4 env_bad_body = ''u-1''"
    by (simp add: env_bad_body_def env_down_def)
  show ?thesis
    unfolding send_message_def upt effects_since_def
    by (simp add: a b c s u Let_def dict_get_def log_error_def)
qed

text \<open>
  C6, amended: on the HTTP path a decoded reply is returned to the caller as soon as an
  attempt produces it, whatever it contains (an \<^verbatim>\<open>error\<close> field included): on the first
  attempt after one POST and no retry, on the attempt \<open>k\<close> after \<open>k\<close> retries. A retry
  happens only after an attempt that raised a \<^verbatim>\<open>RequestException\<close>; an attempt raises one
  exactly when there was no response, or the status was 4xx or 5xx, or the body of the
  response did not decode.
\<close>

theorem http_reply_returned_at_once:
  "(connection_type c \<noteq> ''WebSocket'' \<and> 0 \<le> max_retries c \<and> http e 0 = Returns d \<longrightarrow>
      fst (send_message c e m s) = Inr d \<and>
      effects_since s (snd (send_message c e m s)) =
        [Http_post (server_url c) (get_headers c) (with_id e (heap s m)) (timeout c)]) \<and>
   (connection_type c \<noteq> ''WebSocket'' \<and> 0 \<le> max_retries c \<and> k \<le> nat (max_retries c) \<and>
    (\<forall>i<k. is_request_exception (http e i)) \<and> http e k = Returns d \<longrightarrow>
      fst (send_message c e m s) = Inr d \<and>
      effects_since s (snd (send_message c e m s)) =
        retried_run c e (with_id e (heap s m)) [0..<k] \<and>
      length (filter is_retry_sleep (effects_since s (snd (send_message c e m s)))) = k \<and>
      length (filter is_post (effects_since s (snd (send_message c e m s)))) = Suc k) \<and>
   (connection_type c \<noteq> ''WebSocket'' \<longrightarrow>
      (\<forall>k. k < length (filter is_retry_sleep (effects_since s (snd (send_message c e m s)))) \<longrightarrow>
         is_request_exception (http e k))) \<and>
   is_request_exception (try_body c l x) =
     (case x of
        No_response txt \<Rightarrow> True
      | Response status reason body \<Rightarrow>
          (400 \<le> status \<and> status < 600) \<or> (\<exists>err. l body = Inl err))"
proof -
  have at: "fst (send_message c e m s) = Inr d \<and>
      effects_since s (snd (send_message c e m s)) =
        retried_run c e (with_id e (heap s m)) [0..<k]"
    if a: "connection_type c \<noteq> ''WebSocket''" "0 \<le> max_retries c" "k \<le> nat (max_retries c)"
      "\<forall>i<k. is_request_exception (http e i)" "http e k = Returns d" for k
  proof -
    have n: "nat (max_retries c + 1) = Suc (nat (max_retries c))" using a(2) by simp
    have "send_message c e m s =
        (Inr d, s\<lparr>heap := (heap s)(m := with_id e (heap s m)),
          trace := trace s @ retried_run c e (with_id e (heap s m)) [0..<k]\<rparr>)"
      unfolding send_message_http [OF a(1)] n
      using http_loop_reply_at [OF refl a(2) a(3) a(4) a(5), of 0 m] by simp
    then show ?thesis by (simp add: effects_since_def)
  qed
  have first: "fst (send_message c e m s) = Inr d \<and>
      effects_since s (snd (send_message c e m s)) =
        [Http_post (server_url c) (get_headers c) (with_id e (heap s m)) (timeout c)]"
    if a: "connection_type c \<noteq> ''WebSocket''" "0 \<le> max_retries c" "http e 0 = Returns d"
    using at [of 0] a by (simp add: retried_run_Nil)
  have only: "\<forall>k. k < length (filter is_retry_sleep
        (effects_since s (snd (send_message c e m s)))) \<longrightarrow> is_request_exception (http e k)"
    if a: "connection_type c \<noteq> ''WebSocket''"
  proof -
    let ?u = "s\<lparr>heap := (heap s)(m := with_id e (heap s m))\<rparr>"
    let ?ks = "[0..<nat (max_retries c + 1)]"
    from http_loop_retry_only_after_failure [of c e m ?ks ?u] obtain new where
      new: "trace (snd (http_loop c e m ?ks ?u)) = trace ?u @ new"
        "\<forall>k. k < length (filter is_retry_sleep new) \<longrightarrow>
           k < length ?ks \<and> is_request_exception (http e (?ks ! k))"
      by blast
    have eff: "effects_since s (snd (send_message c e m s)) = new"
      using new(1) by (simp add: send_message_http [OF a] effects_since_def)
    show ?thesis
      unfolding eff using new(2) by (metis add_0 nth_upt length_upt diff_zero)
  qed
  show ?thesis
    using at [of k] first only
    by (simp add: retried_run_counts try_body_raises)
qed

theorem http_reply_returned_at_once_witness:
  "connection_type cfg_http \<noteq> ''WebSocket'' \<and> 0 \<le> max_retries cfg_http \<and>
   http env_app_error 0 =
     Returns (JObj [(''id'', JStr ''u-1''), (''error'', JStr ''no such workflow'')]) \<and>
   fst (send_message cfg_http env_app_error 0 st_new) =
     Inr (JObj [(''id'', JStr ''u-1''), (''error'', JStr ''no such workflow'')]) \<and>
   effects_since st_new (snd (send_message cfg_http env_app_error 0 st_new)) =
     [Http_post ''http://localhost:5678/api/mcp'' [(''Content-Type'', ''application/json'')]
        [(''id'', JStr ''u-1'')] 30] \<and>
   is_request_exception (http env_bad_body 0) \<and>
   http env_bad_body 1 = Returns (JObj [(''id'', JStr ''u-1''), (''response'', JStr ''ok'')]) \<and>
   fst (send_message cfg_http env_bad_body 0 st_new) =
     Inr (JObj [(''id'', JStr ''u-1''), (''response'', JStr ''ok'')]) \<and>
   length (filter is_retry_sleep
     (effects_since st_new (snd (send_message cfg_http env_bad_body 0 st_new)))) = 1 \<and>
   length (filter is_post
     (effects_since st_new (snd (send_message cfg_http env_bad_body 0 st_new)))) = 2 \<and>
   is_request_exception (try_body cfg_http loads_ex (Response 200 ''OK'' ''garbage'')) \<and>
   is_request_exception
     (try_body cfg_http loads_ex (Response 500 ''Internal Server Error'' ''error page''))"
proof -
  let ?d0 = "JObj [(''id'', JStr ''u-1''), (''error'', JStr ''no such workflow'')]"
  let ?d1 = "JObj [(''id'', JStr ''u-1''), (''response'', JStr ''ok'')]"
  have c: "connection_type cfg_http \<noteq> ''WebSocket''" "0 \<le> max_retries cfg_http"
    "(1::nat) \<le> nat (max_retries cfg_http)"
    "server_url cfg_http = ''http://localhost:5678/api/mcp''" "timeout cfg_http = 30"
    "get_headers cfg_http = [(''Content-Type'', ''application/json'')]"
    by (simp_all add: cfg_http_def get_headers_def)
  have h0: "http env_app_error 0 = Returns ?d0"
    by (simp add: env_app_error_def env_down_def)
  have b0: "is_request_exception (http env_bad_body 0)"
    and b1: "http env_bad_body 1 = Returns ?d1"
    by (simp_all add: env_bad_body_def env_down_def try_body_def raise_for_status_def
        loads_ex_def)
  have b0': "\<forall>i<1. is_request_exception (http env_bad_body i)"
    using b0 by simp
  have w: "with_id env_app_error (heap st_new 0) = [(''id'', JStr ''u-1'')]"
    by (simp add: with_id_def st_new_def dict_get_def env_app_error_def env_down_def)
  have first: "fst (send_message cfg_http env_app_error 0 st_new) = Inr ?d0 \<and>
      effects_since st_new (snd (send_message cfg_http env_app_error 0 st_new)) =
        [Http_post (server_url cfg_http) (get_headers cfg_http)
           (with_id env_app_error (heap st_new 0)) (timeout cfg_http)]"
    using http_reply_returned_at_once [of cfg_http env_app_error ?d0 0 st_new, THEN conjunct1]
      c(1,2) h0
    by blast
  have later: "fst (send_message cfg_http env_bad_body 0 st_new) = Inr ?d1 \<and>
      length (filter is_retry_sleep
        (effects_since st_new (snd (send_message cfg_http env_bad_body 0 st_new)))) = 1 \<and>
      length (filter is_post
        (effects_since st_new (snd (send_message cfg_http env_bad_body 0 st_new)))) = Suc 1"
    using http_reply_returned_at_once
      [of cfg_http env_bad_body ?d1 0 st_new 1, THEN conjunct2, THEN conjunct1]
      c(1,2,3) b0' b1
    by blast
  have t1: "is_request_exception (try_body cfg_http loads_ex (Response 200 ''OK'' ''garbage''))"
    using http_reply_returned_at_once
      [of cfg_http env_down JNull 0 st_new 0 loads_ex "Response 200 ''OK'' ''garbage''",
        THEN conjunct2, THEN conjunct2, THEN conjunct2]
    by (simp add: loads_ex_def)
  have t2: "is_request_exception
      (try_body cfg_http loads_ex (Response 500 ''Internal Server Error'' ''error page''))"
    using http_reply_returned_at_once
      [of cfg_http env_down JNull 0 st_new 0 loads_ex
        "Response 500 ''Internal Server Error'' ''error page''",
        THEN conjunct2, THEN conjunct2, THEN conjunct2]
    by simp
  show ?thesis
    using first later t1 t2 c(1,2) h0 b0 b1
    by (simp add: c(4,5,6) w)
qed

section \<open>Waiting for the connection\<close>

lemma bg_step_trace:
  "\<exists>new. trace (bg_step l ev s) = trace s @ new \<and> list_all is_log new"
  by (cases ev; simp add: callback_defs Let_def split: sum.splits json.splits option.splits)

lemma bg_run_trace:
  "\<exists>new. trace (bg_run l evs s) = trace s @ new \<and> list_all is_log new"
proof (induction evs arbitrary: s)
  case Nil
  then show ?case by simp
next
  case (Cons ev evs)
  from bg_step_trace [of l ev s] obtain n1 where
    n1: "trace (bg_step l ev s) = trace s @ n1" "list_all is_log n1" by blast
  from Cons [of "bg_step l ev s"] obtain n2 where
    n2: "trace (bg_run l evs (bg_step l ev s)) = trace (bg_step l ev s) @ n2"
      "list_all is_log n2" by blast
  have "trace (bg_run l (ev # evs) s) = trace s @ (n1 @ n2)" using n1 n2 by simp
  moreover have "list_all is_log (n1 @ n2)" using n1 n2 by simp
  ultimately show ?case by blast
qed

lemma log_not_poll: "list_all is_log new \<Longrightarrow> filter is_poll_sleep new = []"
  by (induction new) (auto elim: is_log.elims)

lemma log_not_send: "list_all is_log new \<Longrightarrow> filter is_ws_send new = []"
  by (induction new) (auto elim: is_log.elims)

lemma bg_step_callbacks:
  "set (message_callbacks (bg_step l ev s)) \<subseteq> set (message_callbacks s)"
  by (cases ev; auto simp add: callback_defs Let_def AList.delete_eq
      split: sum.splits json.splits option.splits)

lemma bg_run_callbacks:
  "set (message_callbacks (bg_run l evs s)) \<subseteq> set (message_callbacks s)"
proof (induction evs arbitrary: s)
  case Nil
  then show ?case by simp
next
  case (Cons ev evs)
  from Cons [of "bg_step l ev s"] bg_step_callbacks [of l ev s] show ?case by auto
qed

lemma poll_callbacks:
  "set (message_callbacks (poll e ks s)) \<subseteq> set (message_callbacks s)"
proof (induction ks arbitrary: s)
  case Nil
  then show ?case by simp
next
  case (Cons k ks)
  let ?s = "bg_run (json_loads e) (during_poll e k) (s\<lparr>trace := trace s @ [Sleep_poll]\<rparr>)"
  from Cons [of ?s] bg_run_callbacks [of "json_loads e" "during_poll e k" "s\<lparr>trace := trace s @ [Sleep_poll]\<rparr>"]
  show ?case by auto
qed

lemma poll_trace:
  "\<exists>new. trace (poll e ks s) = trace s @ new \<and>
     filter is_ws_send new = [] \<and>
     length (filter is_poll_sleep new) \<le> length ks \<and>
     (\<not> ws_connected (poll e ks s) \<longrightarrow> length (filter is_poll_sleep new) = length ks)"
proof (induction ks arbitrary: s)
  case Nil
  then show ?case by simp
next
  case (Cons k ks)
  show ?case
  proof (cases "ws_connected s")
    case True
    then show ?thesis by simp
  next
    case False
    let ?t = "s\<lparr>trace := trace s @ [Sleep_poll]\<rparr>"
    let ?s = "bg_run (json_loads e) (during_poll e k) ?t"
    from bg_run_trace [of "json_loads e" "during_poll e k" ?t] obtain n1 where
      n1: "trace ?s = trace s @ [Sleep_poll] @ n1" "list_all is_log n1" by auto
    from Cons [of ?s] obtain n2 where
      n2: "trace (poll e ks ?s) = trace ?s @ n2" "filter is_ws_send n2 = []"
        "length (filter is_poll_sleep n2) \<le> length ks"
        "\<not> ws_connected (poll e ks ?s) \<longrightarrow> length (filter is_poll_sleep n2) = length ks"
      by blast
    have p: "poll e (k # ks) s = poll e ks ?s" using False by simp
    let ?new = "[Sleep_poll] @ n1 @ n2"
    have "trace (poll e (k # ks) s) = trace s @ ?new" using p n1 n2 by simp
    moreover have "filter is_ws_send ?new = []"
      using n2 log_not_send [OF n1(2)] by simp
    moreover have "length (filter is_poll_sleep ?new) \<le> length (k # ks)"
      using n2 log_not_poll [OF n1(2)] by simp
    moreover have "\<not> ws_connected (poll e (k # ks) s) \<longrightarrow>
        length (filter is_poll_sleep ?new) = length (k # ks)"
      using n2 log_not_poll [OF n1(2)] p by simp
    ultimately show ?thesis by blast
  qed
qed

text \<open>The callbacks and the poll never read the heap.\<close>

lemma bg_step_heap_update:
  "bg_step l ev (s\<lparr>heap := h\<rparr>) = (bg_step l ev s)\<lparr>heap := h\<rparr>"
  by (cases ev; simp add: callback_defs Let_def split: sum.splits json.splits option.splits)

lemma bg_run_heap_update:
  "bg_run l evs (s\<lparr>heap := h\<rparr>) = (bg_run l evs s)\<lparr>heap := h\<rparr>"
  by (induction evs arbitrary: s) (simp_all add: bg_step_heap_update)

lemma poll_heap_update:
  "poll e ks (s\<lparr>heap := h\<rparr>) = (poll e ks s)\<lparr>heap := h\<rparr>"
proof (induction ks arbitrary: s)
  case Nil
  then show ?case by simp
next
  case (Cons k ks)
  let ?T = "trace s @ [Sleep_poll]"
  let ?l = "json_loads e" and ?evs = "during_poll e k"
  have sw: "s\<lparr>heap := h, trace := ?T\<rparr> = (s\<lparr>trace := ?T\<rparr>)\<lparr>heap := h\<rparr>"
    by simp
  show ?case
  proof (cases "ws_connected s")
    case True
    then show ?thesis by simp
  next
    case False
    have "poll e (k # ks) (s\<lparr>heap := h\<rparr>) =
        poll e ks (bg_run ?l ?evs (s\<lparr>heap := h, trace := ?T\<rparr>))"
      using False by simp
    also have "\<dots> = poll e ks ((bg_run ?l ?evs (s\<lparr>trace := ?T\<rparr>))\<lparr>heap := h\<rparr>)"
      by (simp only: sw bg_run_heap_update)
    also have "\<dots> = (poll e ks (bg_run ?l ?evs (s\<lparr>trace := ?T\<rparr>)))\<lparr>heap := h\<rparr>"
      by (rule Cons)
    also have "\<dots> = (poll e (k # ks) s)\<lparr>heap := h\<rparr>"
      using False by simp
    finally show ?thesis .
  qed
qed

lemma connect_heap_update:
  "connect_websocket c (s\<lparr>heap := h\<rparr>) = (connect_websocket c s)\<lparr>heap := h\<rparr>"
  by (simp add: connect_websocket_def Let_def)

text \<open>
  C8: a WebSocket call issued while the transport is not connected first calls
  \<^verbatim>\<open>connect_websocket\<close> and then polls; when the transport is still not connected after
  the poll, the ten checks have each been followed by a sleep of the fixed interval, the
  call returns the error \<^verbatim>\<open>Failed to connect to WebSocket\<close>, nothing has been sent, no
  closure has been created and no entry has been added to the pending calls.
\<close>

theorem connect_poll_bounded:
  assumes "connection_type c = ''WebSocket''"
    and "\<not> ws_connected s"
    and "\<not> ws_connected (poll e [0..<10] (connect_websocket c s))"
  shows "fst (send_message c e m s) =
           Inr (JObj [(''error'', JStr ''Failed to connect to WebSocket'')]) \<and>
         take 2 (effects_since s (snd (send_message c e m s))) =
           [Ws_app_created (next_ws s) (ws_url_of c) (get_headers c),
            Thread_started (next_ws s)] \<and>
         length (filter is_poll_sleep (effects_since s (snd (send_message c e m s)))) = 10 \<and>
         filter is_ws_send (effects_since s (snd (send_message c e m s))) = [] \<and>
         next_call (snd (send_message c e m s)) = next_call s \<and>
         set (message_callbacks (snd (send_message c e m s))) \<subseteq> set (message_callbacks s)"
proof -
  let ?h = "(heap s)(m := with_id e (heap s m))"
  let ?u = "s\<lparr>heap := ?h\<rparr>"
  let ?p = "poll e [0..<10] (connect_websocket c s)"
  have s2: "poll e [0..<10] (connect_websocket c ?u) = ?p\<lparr>heap := ?h\<rparr>"
    by (simp add: connect_heap_update poll_heap_update)
  have sm: "send_message c e m s =
      (Inr (JObj [(''error'', JStr ''Failed to connect to WebSocket'')]),
       log_error ''Failed to connect to WebSocket'' (?p\<lparr>heap := ?h\<rparr>))"
  proof -
    have "send_message c e m s = send_ws c e m ?u"
      using assms(1) by (simp add: send_message_def with_id_def Let_def)
    also have "\<dots> = (Inr (JObj [(''error'', JStr ''Failed to connect to WebSocket'')]),
       log_error ''Failed to connect to WebSocket'' (?p\<lparr>heap := ?h\<rparr>))"
      unfolding send_ws_def using assms(2,3) s2 by (simp add: Let_def)
    finally show ?thesis .
  qed
  let ?c = "connect_websocket c s"
  have ct: "trace ?c = trace s @ [Ws_app_created (next_ws s) (ws_url_of c) (get_headers c),
      Thread_started (next_ws s)]"
    using assms(1) by (simp add: connect_websocket_def Let_def)
  from poll_trace [of e "[0..<10]" ?c] assms(3) obtain new where
    new: "trace ?p = trace ?c @ new" "filter is_ws_send new = []"
      "length (filter is_poll_sleep new) = 10"
    by auto
  have eff: "effects_since s (snd (send_message c e m s)) =
      [Ws_app_created (next_ws s) (ws_url_of c) (get_headers c), Thread_started (next_ws s)] @
      new @ [Log_error ''Failed to connect to WebSocket'']"
    by (simp add: sm effects_since_def log_error_def new(1) ct)
  have cb: "set (message_callbacks ?p) \<subseteq> set (message_callbacks s)"
    using poll_callbacks [of e "[0..<10]" ?c] assms(1)
    by (simp add: connect_websocket_def Let_def)
  have nc: "next_call ?p = next_call s"
    using assms(1) by (simp add: poll_frame connect_websocket_def Let_def)
  show ?thesis
    unfolding eff using new(2,3) cb nc by (simp add: sm log_error_def)
qed

theorem connect_poll_bounded_witness:
  "connection_type cfg_ws = ''WebSocket'' \<and> \<not> ws_connected st_new \<and>
   \<not> ws_connected (poll env_down [0..<10] (connect_websocket cfg_ws st_new)) \<and>
   fst (send_message cfg_ws env_down 0 st_new) =
     Inr (JObj [(''error'', JStr ''Failed to connect to WebSocket'')]) \<and>
   length (filter is_poll_sleep
     (effects_since st_new (snd (send_message cfg_ws env_down 0 st_new)))) = 10 \<and>
   next_call (snd (send_message cfg_ws env_down 0 st_new)) = 0 \<and>
   message_callbacks (snd (send_message cfg_ws env_down 0 st_new)) = []"
proof -
  have upt: "[0..<10] = [0, 1, 2, 3, 4, 5, 6, 7, 8, 9]"
    by (simp add: upt_conv_Cons)
  have h: "\<not> ws_connected (poll env_down [0..<10] (connect_websocket cfg_ws st_new))"
    unfolding upt by (simp add: connect_websocket_def cfg_ws_def st_new_def env_down_def Let_def)
  show ?thesis
    using connect_poll_bounded [of cfg_ws st_new env_down 0, OF _ _ h] h
    by (simp add: cfg_ws_def st_new_def)
qed

section \<open>The envelope\<close>

lemma log_carries: "list_all is_log new \<Longrightarrow> list_all (carries d b) new"
  by (induction new) (auto elim: is_log.elims)

lemma wait_trace:
  "\<exists>new. trace (snd (wait l tok evs s)) = trace s @ new \<and> list_all is_log new"
proof (induction evs arbitrary: s)
  case Nil
  then show ?case by (simp add: timed_out_def log_error_def split: option.splits)
next
  case (Cons ev evs)
  show ?case
  proof (cases "map_of (results s) tok")
    case (Some r)
    then show ?thesis by simp
  next
    case None
    from bg_step_trace [of l ev s] obtain n1 where
      n1: "trace (bg_step l ev s) = trace s @ n1" "list_all is_log n1" by blast
    from Cons [of "bg_step l ev s"] obtain n2 where
      n2: "trace (snd (wait l tok evs (bg_step l ev s))) = trace (bg_step l ev s) @ n2"
        "list_all is_log n2" by blast
    have "trace (snd (wait l tok (ev # evs) s)) = trace s @ (n1 @ n2)"
      using None n1 n2 by simp
    moreover have "list_all is_log (n1 @ n2)" using n1 n2 by simp
    ultimately show ?thesis by blast
  qed
qed

lemma poll_carries:
  "\<exists>new. trace (poll e ks s) = trace s @ new \<and> list_all (carries d b) new"
proof (induction ks arbitrary: s)
  case Nil
  then show ?case by simp
next
  case (Cons k ks)
  show ?case
  proof (cases "ws_connected s")
    case True
    then show ?thesis by simp
  next
    case False
    let ?t = "s\<lparr>trace := trace s @ [Sleep_poll]\<rparr>"
    let ?u = "bg_run (json_loads e) (during_poll e k) ?t"
    from bg_run_trace [of "json_loads e" "during_poll e k" ?t] obtain n1 where
      n1: "trace ?u = trace s @ [Sleep_poll] @ n1" "list_all is_log n1" by auto
    from Cons [of ?u] obtain n2 where
      n2: "trace (poll e ks ?u) = trace ?u @ n2" "list_all (carries d b) n2" by blast
    have "trace (poll e (k # ks) s) = trace s @ ([Sleep_poll] @ n1 @ n2)"
      using False n1 n2 by simp
    moreover have "list_all (carries d b) ([Sleep_poll] @ n1 @ n2)"
      using n2 log_carries [OF n1(2)] by simp
    ultimately show ?thesis by blast
  qed
qed

lemma http_loop_carries:
  "\<exists>new. trace (snd (http_loop c e m ks s)) = trace s @ new \<and>
     list_all (carries d (heap s m)) new"
proof (induction ks arbitrary: s)
  case Nil
  then show ?case by simp
next
  case (Cons a ks)
  show ?case
  proof (cases "http e a")
    case (Returns r)
    then show ?thesis by simp
  next
    case (Raises_other x)
    then show ?thesis by simp
  next
    case (Raises_RequestException x)
    show ?thesis
    proof (cases "int a < max_retries c")
      case False
      then show ?thesis using Raises_RequestException by (simp add: log_error_def)
    next
      case True
      let ?first = "[Http_post (server_url c) (get_headers c) (heap s m) (timeout c),
         Log_error (''HTTP request failed: '' @ x), Sleep_retry (retry_delay c)]"
      let ?t = "s\<lparr>trace := trace s @ ?first\<rparr>"
      from Cons [of ?t] obtain new where
        new: "trace (snd (http_loop c e m ks ?t)) = trace ?t @ new"
          "list_all (carries d (heap ?t m)) new"
        by blast
      have eq: "http_loop c e m (a # ks) s = http_loop c e m ks ?t"
        using Raises_RequestException True by (simp add: log_error_def)
      have "trace (snd (http_loop c e m (a # ks) s)) = trace s @ (?first @ new)"
        using eq new(1) by simp
      moreover have "list_all (carries d (heap s m)) (?first @ new)"
        using new(2) by simp
      ultimately show ?thesis by blast
    qed
  qed
qed

lemma send_ws_heap: "heap (snd (send_ws c e m s)) = heap s"
  by (simp add: send_ws_def Let_def wait_frame poll_frame connect_websocket_def
      log_error_def split: option.splits)

lemma connect_trace:
  "\<exists>new. trace (connect_websocket c s) = trace s @ new \<and> list_all (carries d b) new"
  by (simp add: connect_websocket_def Let_def)

lemma send_ws_carries:
  "\<exists>new. trace (snd (send_ws c e m s)) = trace s @ new \<and>
     list_all (carries (json_dumps e) (heap s m)) new"
proof -
  let ?d = "json_dumps e" and ?b = "heap s m"
  define s2 where "s2 = (if \<not> ws_connected s then poll e [0..<10] (connect_websocket c s) else s)"
  have h2: "heap s2 = heap s"
    by (simp add: s2_def poll_frame connect_websocket_def Let_def)
  have t2: "\<exists>n. trace s2 = trace s @ n \<and> list_all (carries ?d ?b) n"
  proof (cases "ws_connected s")
    case True
    then show ?thesis by (simp add: s2_def)
  next
    case False
    from connect_trace [of c s ?d ?b] obtain n1 where
      n1: "trace (connect_websocket c s) = trace s @ n1" "list_all (carries ?d ?b) n1" by blast
    from poll_carries [of e "[0..<10]" "connect_websocket c s" ?d ?b] obtain n2 where
      n2: "trace (poll e [0..<10] (connect_websocket c s)) = trace (connect_websocket c s) @ n2"
        "list_all (carries ?d ?b) n2" by blast
    have "trace s2 = trace s @ (n1 @ n2)" using False n1 n2 by (simp add: s2_def)
    moreover have "list_all (carries ?d ?b) (n1 @ n2)" using n1 n2 by simp
    ultimately show ?thesis by blast
  qed
  then obtain n where n: "trace s2 = trace s @ n" "list_all (carries ?d ?b) n" by blast
  have "\<exists>n'. trace (snd (send_ws c e m s)) = trace s2 @ n' \<and> list_all (carries ?d ?b) n'"
  proof (cases "ws_connected s2")
    case False
    then show ?thesis unfolding send_ws_def s2_def [symmetric]
      by (simp add: Let_def log_error_def)
  next
    case True
    show ?thesis
    proof (cases "hashable (dict_get (heap s2 m) ''id'')")
      case False
      then show ?thesis using True unfolding send_ws_def s2_def [symmetric]
        by (simp add: Let_def)
    next
      case h: True
      show ?thesis
      proof (cases "ws s2")
        case None
        then show ?thesis using True h unfolding send_ws_def s2_def [symmetric]
          by (simp add: Let_def)
      next
        case (Some w)
        show ?thesis
        proof (cases "ws_send_raises e")
          case (Some x)
          then show ?thesis using True h \<open>ws s2 = Some w\<close>
            unfolding send_ws_def s2_def [symmetric] by (simp add: Let_def)
        next
          case None
          let ?s3 = "s2\<lparr>message_callbacks :=
              AList.update (dict_key (dict_get (heap s2 m) ''id'')) (next_call s2)
                (message_callbacks s2),
            next_call := Suc (next_call s2)\<rparr>"
          let ?sent = "[Ws_send w (json_dumps e (JObj (heap s2 m))),
              Event_wait (next_call s2) (timeout c)]"
          let ?s4 = "?s3\<lparr>trace := trace s2 @ ?sent\<rparr>"
          have sw: "send_ws c e m s =
              wait (json_loads e) (next_call s2) (during_wait e) ?s4"
            using True h \<open>ws s2 = Some w\<close> None
            unfolding send_ws_def s2_def [symmetric] by (simp add: Let_def)
          from wait_trace [of "json_loads e" "next_call s2" "during_wait e" ?s4]
          obtain n3 where n3:
            "trace (snd (wait (json_loads e) (next_call s2) (during_wait e) ?s4)) =
               trace ?s4 @ n3" "list_all is_log n3" by blast
          have "trace (snd (send_ws c e m s)) = trace s2 @ (?sent @ n3)"
            using sw n3(1) by simp
          moreover have "list_all (carries ?d ?b) (?sent @ n3)"
            using log_carries [OF n3(2)] h2 by simp
          ultimately show ?thesis by blast
        qed
      qed
    qed
  qed
  then obtain n' where n': "trace (snd (send_ws c e m s)) = trace s2 @ n'"
    "list_all (carries ?d ?b) n'" by blast
  have "trace (snd (send_ws c e m s)) = trace s @ (n @ n')" using n n' by simp
  moreover have "list_all (carries ?d ?b) (n @ n')" using n n' by simp
  ultimately show ?thesis by blast
qed

lemma send_message_heap:
  "heap (snd (send_message c e m s)) = (heap s)(m := with_id e (heap s m))"
  by (auto simp add: send_message_def Let_def send_ws_heap http_loop_frame with_id_def)

lemma send_message_carries:
  "list_all (carries (json_dumps e) (with_id e (heap s m)))
     (effects_since s (snd (send_message c e m s)))"
proof -
  let ?u = "s\<lparr>heap := (heap s)(m := with_id e (heap s m))\<rparr>"
  have sm: "send_message c e m s =
      (if connection_type c = ''WebSocket'' then send_ws c e m ?u
       else http_loop c e m [0..<nat (max_retries c + 1)] ?u)"
    by (simp add: send_message_def with_id_def Let_def)
  have "\<exists>new. trace (snd (send_message c e m s)) = trace ?u @ new \<and>
      list_all (carries (json_dumps e) (heap ?u m)) new"
    unfolding sm using send_ws_carries [of c e m ?u]
      http_loop_carries [of c e m "[0..<nat (max_retries c + 1)]" ?u "json_dumps e"]
    by (simp del: upt_Suc)
  then show ?thesis by (auto simp add: effects_since_def)
qed

lemma http_loop_first_post:
  "\<exists>rest. trace (snd (http_loop c e m (a # ks) s)) =
     trace s @ Http_post (server_url c) (get_headers c) (heap s m) (timeout c) # rest"
proof (cases "http e a")
  case (Returns r)
  then show ?thesis by simp
next
  case (Raises_other x)
  then show ?thesis by simp
next
  case (Raises_RequestException x)
  show ?thesis
  proof (cases "int a < max_retries c")
    case False
    then show ?thesis using Raises_RequestException by (simp add: log_error_def)
  next
    case True
    let ?first = "[Http_post (server_url c) (get_headers c) (heap s m) (timeout c),
       Log_error (''HTTP request failed: '' @ x), Sleep_retry (retry_delay c)]"
    let ?t = "s\<lparr>trace := trace s @ ?first\<rparr>"
    from http_loop_carries [of c e m ks ?t "json_dumps e"] obtain new where
      new: "trace (snd (http_loop c e m ks ?t)) = trace ?t @ new" by blast
    have eq: "http_loop c e m (a # ks) s = http_loop c e m ks ?t"
      using Raises_RequestException True by (simp add: log_error_def)
    show ?thesis using eq new by simp
  qed
qed

lemma send_ws_first_send:
  assumes "ws_connected s" "ws s = Some w" "ws_send_raises e = None"
    and "hashable (dict_get (heap s m) ''id'')"
  shows "\<exists>rest. trace (snd (send_ws c e m s)) =
     trace s @ Ws_send w (json_dumps e (JObj (heap s m))) # rest"
proof -
  let ?s3 = "s\<lparr>message_callbacks :=
      AList.update (dict_key (dict_get (heap s m) ''id'')) (next_call s) (message_callbacks s),
    next_call := Suc (next_call s)\<rparr>"
  let ?sent = "[Ws_send w (json_dumps e (JObj (heap s m))), Event_wait (next_call s) (timeout c)]"
  let ?s4 = "?s3\<lparr>trace := trace s @ ?sent\<rparr>"
  have sw: "send_ws c e m s = wait (json_loads e) (next_call s) (during_wait e) ?s4"
    using assms unfolding send_ws_def by (simp add: Let_def)
  from wait_trace [of "json_loads e" "next_call s" "during_wait e" ?s4] obtain n3 where
    "trace (snd (wait (json_loads e) (next_call s) (during_wait e) ?s4)) = trace ?s4 @ n3"
    by blast
  then show ?thesis using sw by simp
qed

lemma send_message_writes_id:
  assumes "\<not> truthy (dict_get (heap s m) ''id'')"
  shows "heap (snd (send_message c e m s)) m =
           AList.update ''id'' (JStr (uuid4 e)) (heap s m) \<and>
         dict_get (heap (snd (send_message c e m s)) m) ''id'' = JStr (uuid4 e) \<and>
         (\<forall>a. a \<noteq> m \<longrightarrow> heap (snd (send_message c e m s)) a = heap s a) \<and>
         list_all (carries (json_dumps e) (heap (snd (send_message c e m s)) m))
           (effects_since s (snd (send_message c e m s))) \<and>
         (connection_type c \<noteq> ''WebSocket'' \<and> 0 \<le> max_retries c \<longrightarrow>
            take 1 (effects_since s (snd (send_message c e m s))) =
              [Http_post (server_url c) (get_headers c)
                 (AList.update ''id'' (JStr (uuid4 e)) (heap s m)) (timeout c)]) \<and>
         (connection_type c = ''WebSocket'' \<and> ws_connected s \<and> ws s = Some w \<and>
          ws_send_raises e = None \<longrightarrow>
            take 1 (effects_since s (snd (send_message c e m s))) =
              [Ws_send w (json_dumps e (JObj (AList.update ''id'' (JStr (uuid4 e)) (heap s m))))])"
proof -
  let ?new = "AList.update ''id'' (JStr (uuid4 e)) (heap s m)"
  let ?u = "s\<lparr>heap := (heap s)(m := ?new)\<rparr>"
  have w: "with_id e (heap s m) = ?new"
    using assms by (simp add: with_id_def)
  have h: "heap (snd (send_message c e m s)) = (heap s)(m := ?new)"
    by (simp add: send_message_heap w)
  have g: "dict_get ?new ''id'' = JStr (uuid4 e)"
    by (simp add: dict_get_def AList.update_conv')
  have car: "list_all (carries (json_dumps e) ?new) (effects_since s (snd (send_message c e m s)))"
    using send_message_carries [of e s m c] by (simp add: w)
  have post: "take 1 (effects_since s (snd (send_message c e m s))) =
      [Http_post (server_url c) (get_headers c) ?new (timeout c)]"
    if a: "connection_type c \<noteq> ''WebSocket''" "0 \<le> max_retries c"
  proof -
    have n: "[0..<nat (max_retries c + 1)] = 0 # [1..<nat (max_retries c + 1)]"
      using a(2) by (simp add: upt_conv_Cons)
    have sm: "send_message c e m s = http_loop c e m (0 # [1..<nat (max_retries c + 1)]) ?u"
      using send_message_http [OF a(1), of e m s] n w by simp
    from http_loop_first_post [of c e m 0 "[1..<nat (max_retries c + 1)]" ?u] obtain rest where
      "trace (snd (http_loop c e m (0 # [1..<nat (max_retries c + 1)]) ?u)) =
         trace ?u @ Http_post (server_url c) (get_headers c) (heap ?u m) (timeout c) # rest"
      by blast
    then show ?thesis by (simp add: sm effects_since_def)
  qed
  have send: "take 1 (effects_since s (snd (send_message c e m s))) =
      [Ws_send w (json_dumps e (JObj ?new))]"
    if a: "connection_type c = ''WebSocket''" "ws_connected s" "ws s = Some w"
      "ws_send_raises e = None"
  proof -
    have sm: "send_message c e m s = send_ws c e m ?u"
      using a(1) assms by (simp add: send_message_def Let_def)
    have hh: "hashable (dict_get (heap ?u m) ''id'')" by (simp add: g)
    from send_ws_first_send [of ?u w e m c] a hh obtain rest where
      "trace (snd (send_ws c e m ?u)) =
         trace ?u @ Ws_send w (json_dumps e (JObj (heap ?u m))) # rest"
      by auto
    then show ?thesis by (simp add: sm effects_since_def)
  qed
  show ?thesis
    using car post send by (simp add: h g)
qed

text \<open>
  C10: when the message has no id, or a falsy one, \<^verbatim>\<open>send_message\<close> writes the generated
  UUID under \<^verbatim>\<open>id\<close> into the caller's own dictionary: after the call that object holds
  the id, every other object is unchanged, and every envelope put on the wire (the first
  POST, the WebSocket frame) carries the object as it is after the write.
\<close>

theorem send_message_sets_id_in_place:
  assumes "\<not> truthy (dict_get (heap s m) ''id'')"
  shows "heap (snd (send_message c e m s)) m =
           AList.update ''id'' (JStr (uuid4 e)) (heap s m) \<and>
         dict_get (heap (snd (send_message c e m s)) m) ''id'' = JStr (uuid4 e) \<and>
         (\<forall>a. a \<noteq> m \<longrightarrow> heap (snd (send_message c e m s)) a = heap s a) \<and>
         list_all (carries (json_dumps e) (heap (snd (send_message c e m s)) m))
           (effects_since s (snd (send_message c e m s))) \<and>
         (connection_type c \<noteq> ''WebSocket'' \<and> 0 \<le> max_retries c \<longrightarrow>
            take 1 (effects_since s (snd (send_message c e m s))) =
              [Http_post (server_url c) (get_headers c)
                 (AList.update ''id'' (JStr (uuid4 e)) (heap s m)) (timeout c)]) \<and>
         (connection_type c = ''WebSocket'' \<and> ws_connected s \<and> ws s = Some w \<and>
          ws_send_raises e = None \<longrightarrow>
            take 1 (effects_since s (snd (send_message c e m s))) =
              [Ws_send w (json_dumps e (JObj (AList.update ''id'' (JStr (uuid4 e)) (heap s m))))])"
  using assms by (rule send_message_writes_id)

theorem send_message_sets_id_in_place_witness:
  "\<not> truthy (dict_get (heap st_custom 0) ''id'') \<and>
   heap st_custom 0 =
     [(''id'', JStr []), (''type'', JStr ''message''), (''name'', JStr ''ping''),
      (''data'', JObj [])] \<and>
   heap (snd (send_message cfg_http env_app_error 0 st_custom)) 0 =
     [(''id'', JStr ''u-1''), (''type'', JStr ''message''), (''name'', JStr ''ping''),
      (''data'', JObj [])] \<and>
   take 1 (effects_since st_custom (snd (send_message cfg_http env_app_error 0 st_custom))) =
     [Http_post ''http://localhost:5678/api/mcp'' [(''Content-Type'', ''application/json'')]
        [(''id'', JStr ''u-1''), (''type'', JStr ''message''), (''name'', JStr ''ping''),
         (''data'', JObj [])] 30] \<and>
   \<not> truthy (dict_get (heap st_open 0) ''id'') \<and>
   heap (snd (send_message cfg_ws env_down 0 st_open)) 0 = [(''id'', JStr ''u-1'')] \<and>
   take 1 (effects_since st_open (snd (send_message cfg_ws env_down 0 st_open))) =
     [Ws_send 0 ''json'']"
proof -
  have h1: "heap st_custom 0 =
     [(''id'', JStr []), (''type'', JStr ''message''), (''name'', JStr ''ping''),
      (''data'', JObj [])]"
    by (simp add: st_custom_def)
  have f1: "\<not> truthy (dict_get (heap st_custom 0) ''id'')"
    by (simp add: h1 dict_get_def)
  have u1: "AList.update ''id'' (JStr (uuid4 env_app_error)) (heap st_custom 0) =
     [(''id'', JStr ''u-1''), (''type'', JStr ''message''), (''name'', JStr ''ping''),
      (''data'', JObj [])]"
    by (simp add: h1 env_app_error_def env_down_def)
  have c1: "connection_type cfg_http \<noteq> ''WebSocket'' \<and> 0 \<le> max_retries cfg_http"
    "server_url cfg_http = ''http://localhost:5678/api/mcp''" "timeout cfg_http = 30"
    "get_headers cfg_http = [(''Content-Type'', ''application/json'')]"
    by (simp_all add: cfg_http_def get_headers_def)
  note A = send_message_sets_id_in_place
    [where s = st_custom and m = 0 and c = cfg_http and e = env_app_error, OF f1]
  have a1: "heap (snd (send_message cfg_http env_app_error 0 st_custom)) 0 =
      AList.update ''id'' (JStr (uuid4 env_app_error)) (heap st_custom 0)"
    using A by (rule conjunct1)
  have a2: "take 1 (effects_since st_custom (snd (send_message cfg_http env_app_error 0 st_custom))) =
      [Http_post (server_url cfg_http) (get_headers cfg_http)
         (AList.update ''id'' (JStr (uuid4 env_app_error)) (heap st_custom 0))
         (timeout cfg_http)]"
    using A [THEN conjunct2, THEN conjunct2, THEN conjunct2, THEN conjunct2, THEN conjunct1]
      c1(1)
    by (rule mp)
  have h2: "heap st_open 0 = []"
    by (simp add: st_open_def)
  have f2: "\<not> truthy (dict_get (heap st_open 0) ''id'')"
    by (simp add: h2 dict_get_def)
  have u2: "AList.update ''id'' (JStr (uuid4 env_down)) (heap st_open 0) = [(''id'', JStr ''u-1'')]"
    by (simp add: h2 env_down_def)
  have c2: "connection_type cfg_ws = ''WebSocket'' \<and> ws_connected st_open \<and> ws st_open = Some 0 \<and>
      ws_send_raises env_down = None"
    by (simp add: cfg_ws_def st_open_def env_down_def)
  have d2: "json_dumps env_down (JObj [(''id'', JStr ''u-1'')]) = ''json''"
    by (simp add: env_down_def)
  note B = send_message_sets_id_in_place
    [where s = st_open and m = 0 and c = cfg_ws and e = env_down and w = 0, OF f2]
  have b1: "heap (snd (send_message cfg_ws env_down 0 st_open)) 0 =
      AList.update ''id'' (JStr (uuid4 env_down)) (heap st_open 0)"
    using B by (rule conjunct1)
  have b2: "take 1 (effects_since st_open (snd (send_message cfg_ws env_down 0 st_open))) =
      [Ws_send 0 (json_dumps env_down
         (JObj (AList.update ''id'' (JStr (uuid4 env_down)) (heap st_open 0))))]"
    using B [THEN conjunct2, THEN conjunct2, THEN conjunct2, THEN conjunct2, THEN conjunct2]
      c2
    by (rule mp)
  show ?thesis
    using f1 h1 a1 [unfolded u1] a2 [unfolded u1 c1] f2 b1 [unfolded u2] b2 [unfolded u2 d2]
    by (intro conjI)
qed

section \<open>Named operations\<close>

lemma invoke_named_send:
  "invoke_named c e op s =
     send_message c e (next_obj s) (snd (new_dict (contract_request (contract_row e op)) s))"
  by (cases op)
    (simp_all add: list_workflows_def search_workflows_def add_workflow_def
      remove_workflow_def execute_workflow_def new_dict_def)

lemma contract_request_no_id:
  "\<not> truthy (dict_get (contract_request row) ''id'')"
  "AList.update ''id'' v (contract_request row) = contract_request row @ [(''id'', v)]"
  by (cases row; simp add: dict_get_def)+

text \<open>
  C7: each named operation builds the request of its contract row and returns what
  \<^verbatim>\<open>send_message\<close> returns for it, unmodified: result and state are those of
  \<^verbatim>\<open>send_message\<close> on the new dictionary, the dictionary ends as the contract request with
  the generated id appended, and that is what every envelope on the wire carries.
\<close>

theorem named_operations_payloads:
  "invoke_named c e op s =
     send_message c e (next_obj s) (snd (new_dict (contract_request (contract_row e op)) s)) \<and>
   heap (snd (invoke_named c e op s)) (next_obj s) =
     contract_request (contract_row e op) @ [(''id'', JStr (uuid4 e))] \<and>
   list_all
     (carries (json_dumps e) (contract_request (contract_row e op) @ [(''id'', JStr (uuid4 e))]))
     (effects_since s (snd (invoke_named c e op s))) \<and>
   (connection_type c \<noteq> ''WebSocket'' \<and> 0 \<le> max_retries c \<longrightarrow>
      take 1 (effects_since s (snd (invoke_named c e op s))) =
        [Http_post (server_url c) (get_headers c)
           (contract_request (contract_row e op) @ [(''id'', JStr (uuid4 e))]) (timeout c)]) \<and>
   (connection_type c = ''WebSocket'' \<and> ws_connected s \<and> ws s = Some w \<and>
    ws_send_raises e = None \<longrightarrow>
      take 1 (effects_since s (snd (invoke_named c e op s))) =
        [Ws_send w (json_dumps e
           (JObj (contract_request (contract_row e op) @ [(''id'', JStr (uuid4 e))])))])"
proof -
  let ?msg = "contract_request (contract_row e op)"
  let ?t = "snd (new_dict ?msg s)"
  have t: "heap ?t (next_obj s) = ?msg" "trace ?t = trace s" "ws_connected ?t = ws_connected s"
    "ws ?t = ws s"
    by (simp_all add: new_dict_def)
  have f: "\<not> truthy (dict_get (heap ?t (next_obj s)) ''id'')"
    by (simp add: t contract_request_no_id)
  have eff: "\<And>x. effects_since s x = effects_since ?t x"
    by (simp add: effects_since_def t)
  note W = send_message_writes_id [where s = ?t and m = "next_obj s" and c = c and e = e
      and w = w, OF f, unfolded t contract_request_no_id, folded eff]
  have w1: "heap (snd (send_message c e (next_obj s) ?t)) (next_obj s) =
      ?msg @ [(''id'', JStr (uuid4 e))]"
    using W by (rule conjunct1)
  note w4 = W [THEN conjunct2, THEN conjunct2, THEN conjunct2, THEN conjunct1, unfolded w1]
  note w5 = W [THEN conjunct2, THEN conjunct2, THEN conjunct2, THEN conjunct2, THEN conjunct1]
  note w6 = W [THEN conjunct2, THEN conjunct2, THEN conjunct2, THEN conjunct2, THEN conjunct2]
  show ?thesis
    unfolding invoke_named_send by (intro conjI refl w1 w4 w5 w6)
qed

theorem named_operations_payloads_witness:
  "connection_type cfg_http \<noteq> ''WebSocket'' \<and> 0 \<le> max_retries cfg_http \<and>
   heap (snd (add_workflow cfg_http env_app_error ''a,b'' st_new)) 0 =
     [(''type'', JStr ''message''), (''name'', JStr ''addWorkflow''),
      (''data'', JObj [(''operation'', JStr ''addWorkflow''), (''workflowIds'', JStr ''a,b''),
                       (''parameters'', JStr ''null'')]),
      (''id'', JStr ''u-1'')] \<and>
   take 1 (effects_since st_new (snd (add_workflow cfg_http env_app_error ''a,b'' st_new))) =
     [Http_post ''http://localhost:5678/api/mcp'' [(''Content-Type'', ''application/json'')]
        [(''type'', JStr ''message''), (''name'', JStr ''addWorkflow''),
         (''data'', JObj [(''operation'', JStr ''addWorkflow''), (''workflowIds'', JStr ''a,b''),
                          (''parameters'', JStr ''null'')]),
         (''id'', JStr ''u-1'')] 30] \<and>
   fst (add_workflow cfg_http env_app_error ''a,b'' st_new) =
     Inr (JObj [(''id'', JStr ''u-1''), (''error'', JStr ''no such workflow'')]) \<and>
   heap (snd (execute_workflow cfg_ws env_down ''wf-1'' [(''x'', JInt 1)] st_open)) 0 =
     [(''type'', JStr ''message''), (''name'', JStr ''executeWorkflow''),
      (''data'', JObj [(''operation'', JStr ''executeWorkflow''), (''workflowIds'', JStr ''wf-1''),
                       (''parameters'', JStr ''json'')]),
      (''id'', JStr ''u-1'')]"
proof -
  have c1: "connection_type cfg_http \<noteq> ''WebSocket'' \<and> 0 \<le> max_retries cfg_http"
    "server_url cfg_http = ''http://localhost:5678/api/mcp''" "timeout cfg_http = 30"
    "get_headers cfg_http = [(''Content-Type'', ''application/json'')]"
    by (simp_all add: cfg_http_def get_headers_def)
  have e1: "uuid4 env_app_error = ''u-1''" "uuid4 env_down = ''u-1''"
    "json_dumps env_down (JObj [(''x'', JInt 1)]) = ''json''"
    "http env_app_error 0 = Returns (JObj [(''id'', JStr ''u-1''), (''error'', JStr ''no such workflow'')])"
    by (simp_all add: env_app_error_def env_down_def)
  have n: "next_obj st_new = 0" "next_obj st_open = 0"
    by (simp_all add: st_new_def st_open_def)
  note A = named_operations_payloads
    [where c = cfg_http and e = env_app_error and op = "AddWorkflow ''a,b''" and s = st_new,
      unfolded invoke_named.simps contract_row.simps contract_request.simps n e1 append.simps]
  note a2 = A [THEN conjunct2, THEN conjunct1]
  have a4: "take 1 (effects_since st_new (snd (add_workflow cfg_http env_app_error ''a,b'' st_new))) =
     [Http_post (server_url cfg_http) (get_headers cfg_http)
        [(''type'', JStr ''message''), (''name'', JStr ''addWorkflow''),
         (''data'', JObj [(''operation'', JStr ''addWorkflow''), (''workflowIds'', JStr ''a,b''),
                          (''parameters'', JStr ''null'')]),
         (''id'', JStr ''u-1'')] (timeout cfg_http)]"
    using A [THEN conjunct2, THEN conjunct2, THEN conjunct2, THEN conjunct1] c1(1)
    by (rule mp)
  have a0: "fst (add_workflow cfg_http env_app_error ''a,b'' st_new) =
     Inr (JObj [(''id'', JStr ''u-1''), (''error'', JStr ''no such workflow'')])"
    unfolding A [THEN conjunct1]
    by (simp add: send_message_def Let_def cfg_http_def e1 upt_conv_Cons)
  note B = named_operations_payloads
    [where c = cfg_ws and e = env_down and op = "ExecuteWorkflow ''wf-1'' [(''x'', JInt 1)]"
      and s = st_open,
      unfolded invoke_named.simps contract_row.simps contract_request.simps n e1 append.simps]
  note b2 = B [THEN conjunct2, THEN conjunct1]
  show ?thesis
    using c1(1) a2 a4 [unfolded c1] a0 b2 by (intro conjI) simp_all
qed

end
